theory Spec2Isabelle
  imports Complex_Main
begin

section \<open>Trip planner: duty-cycle simulation (trips/simulator.py, trips/views.py)\<close>

text \<open>
  The embedding follows the two Python modules function by function.

  Numbers. Python's \<open>int\<close> is \<^typ>\<open>int\<close>. A Python \<open>float\<close> is a \<^typ>\<open>real\<close>: the value
  of the binary64 number. Comparisons, \<open>min\<close> and \<open>ceil\<close> are exact on floats as they are on
  reals. An arithmetic operation of Python returns the binary64 number nearest to the exact
  result, ties to even: \<open>fl\<close> below, and \<open>fadd\<close>, \<open>fsub\<close>, \<open>fmul\<close>, \<open>fdiv\<close>. Wherever the
  source passes a float to \<open>round(x, n)\<close> the result depends on the binary value of \<open>x\<close>,
  so every operation that leads to such an \<open>x\<close> is modelled with its rounding. The
  arithmetic on driving hours inside the timeline builder, and the division in the
  fuel-stop count, are the exact operations, to which the float results are equal up to
  that rounding. The exponent range of binary64 is unbounded above in \<open>fl\<close>: overflow to
  infinity, NaN, and the \<open>OverflowError\<close> of converting an int beyond that range are
  outside the model (the one place where a non-finite float is visible, \<open>int(x)\<close> in the
  view, has its own type below).

  Time. A naive \<open>datetime\<close> is the number of microseconds since a day-aligned epoch, a
  \<open>timedelta\<close> a number of microseconds; the calendar range of \<open>datetime\<close> (years 1..9999)
  is outside the model. \<open>datetime.now()\<close> is an input of the functions that read the clock.
\<close>

subsection \<open>Python numerics\<close>

definition round_half_even :: "real \<Rightarrow> int" where
  "round_half_even x =
     (let f = \<lfloor>x\<rfloor>; r = x - of_int f
      in if r < 1/2 then f else if 1/2 < r then f + 1 else if even f then f else f + 1)"

text \<open>
  Binary64. \<open>bit_length n\<close> is the number of binary digits of \<open>n\<close>, and for \<open>x > 0\<close>
  \<open>float_exponent x\<close> is the \<open>e\<close> with \<open>2 ^ e \<le> x < 2 ^ (e + 1)\<close>. \<open>fl x\<close> rounds \<open>x\<close> to 53
  significant binary digits (to a multiple of \<open>2 ^ (e - 52)\<close>, and of \<open>2 ^ - 1074\<close> at
  least, the spacing of the subnormal numbers), ties to even.
\<close>

fun bit_length :: "nat \<Rightarrow> nat" where
  "bit_length n = (if n = 0 then 0 else Suc (bit_length (n div 2)))"

declare bit_length.simps [simp del]

definition float_exponent :: "real \<Rightarrow> int" where
  "float_exponent x =
     (if 1 \<le> x then int (bit_length (nat \<lfloor>x\<rfloor>)) - 1
      else - int (bit_length (nat (\<lceil>1 / x\<rceil> - 1))))"

definition fl :: "real \<Rightarrow> real" where
  "fl x =
     (if x = 0 then 0
      else let e = max (float_exponent \<bar>x\<bar> - 52) (- 1074)
           in if 0 \<le> e then of_int (round_half_even (x / 2 ^ nat e)) * 2 ^ nat e
              else of_int (round_half_even (x * 2 ^ nat (- e))) / 2 ^ nat (- e))"

text \<open>
  \<open>x + y\<close>, \<open>x - y\<close>, \<open>x * y\<close> and \<open>x / y\<close> on floats; \<open>float(k)\<close> for an int, as mixed
  arithmetic converts it; and \<open>a / b\<close> on two ints, which is rounded once.
\<close>

definition fadd :: "real \<Rightarrow> real \<Rightarrow> real" where
  "fadd x y = fl (x + y)"

definition fsub :: "real \<Rightarrow> real \<Rightarrow> real" where
  "fsub x y = fl (x - y)"

definition fmul :: "real \<Rightarrow> real \<Rightarrow> real" where
  "fmul x y = fl (x * y)"

definition fdiv :: "real \<Rightarrow> real \<Rightarrow> real" where
  "fdiv x y = fl (x / y)"

definition float_of_int :: "int \<Rightarrow> real" where
  "float_of_int k = fl (of_int k)"

definition int_truediv :: "int \<Rightarrow> int \<Rightarrow> real" where
  "int_truediv a b = fl (of_int a / of_int b)"

text \<open>
  \<open>round(x, ndigits)\<close> for a float \<open>x\<close> and \<open>ndigits \<ge> 0\<close>: the exact value of \<open>x\<close> is
  rounded to \<open>ndigits\<close> decimals, an exact tie to the even digit, and the float nearest to
  that decimal number is returned.
\<close>

definition py_round :: "real \<Rightarrow> nat \<Rightarrow> real" where
  "py_round x ndigits = fl (of_int (round_half_even (x * 10 ^ ndigits)) / 10 ^ ndigits)"

text \<open>\<open>round(k, ndigits)\<close> for an int \<open>k\<close> and \<open>ndigits \<ge> 0\<close> returns \<open>k\<close> itself.\<close>

definition py_round_int :: "int \<Rightarrow> nat \<Rightarrow> int" where
  "py_round_int k ndigits = k"

subsection \<open>Fuel-stop count\<close>

text \<open>
  \<^verbatim>\<open>
  def calculate_fuel_stops(self, total_distance):
      if total_distance <= 1000:
          return 0
      return ceil(total_distance / 1000) - 1
  \<close>
\<close>

definition calculate_fuel_stops :: "real \<Rightarrow> int" where
  "calculate_fuel_stops total_distance =
     (if total_distance \<le> 1000 then 0 else \<lceil>total_distance / 1000\<rceil> - 1)"

subsection \<open>Python values and exceptions\<close>

text \<open>
  A float as \<open>int(x)\<close> sees it in the view is finite or one of the three non-finite
  values. A decoded JSON value is one of Python's \<open>None\<close> (\<open>JNull\<close>), \<open>bool\<close>, \<open>int\<close>,
  \<open>float\<close>, \<open>str\<close>, \<open>list\<close> and \<open>dict\<close>.
\<close>

datatype pyfloat = Finite real | PosInf | NegInf | NaN

datatype json =
    JNull
  | JBool bool
  | JInt int
  | JFloat pyfloat
  | JStr string
  | JList "json list"
  | JDict "(string \<times> json) list"

text \<open>Exceptions carry their message, \<open>str(e)\<close>.\<close>

datatype py_exception =
    ValueError string
  | TypeError string
  | OverflowError string
  | KeyError string
  | OtherException string

fun exc_str :: "py_exception \<Rightarrow> string" where
  "exc_str (ValueError m) = m"
| "exc_str (TypeError m) = m"
| "exc_str (OverflowError m) = m"
| "exc_str (KeyError m) = m"
| "exc_str (OtherException m) = m"

text \<open>Truth value of a Python object, as \<open>or\<close> and \<open>not\<close> read it.\<close>

fun truthy :: "json \<Rightarrow> bool" where
  "truthy JNull = False"
| "truthy (JBool b) = b"
| "truthy (JInt n) = (n \<noteq> 0)"
| "truthy (JFloat (Finite r)) = (r \<noteq> 0)"
| "truthy (JFloat _) = True"
| "truthy (JStr s) = (s \<noteq> [])"
| "truthy (JList xs) = (xs \<noteq> [])"
| "truthy (JDict kvs) = (kvs \<noteq> [])"

subsection \<open>The simulator object\<close>

text \<open>
  \<^verbatim>\<open>
  def __init__(self, geoapify_token=None, current_cycle_used=0):
      self.geoapify_token = geoapify_token or config('GEOAPIFY_TOKEN', default=None)
      if not self.geoapify_token:
          raise ValueError("Geoapify token is required")
      self.remaining_cycle = 70 - current_cycle_used
      self.driving_limit = 11
      ...
  \<close>
  \<open>env_token\<close> is what \<open>config('GEOAPIFY_TOKEN', default=None)\<close> returns. The only caller
  passes an \<open>int\<close> as \<open>current_cycle_used\<close>.
\<close>

record TripSimulator =
  geoapify_token :: json
  remaining_cycle :: int
  driving_limit :: int
  on_duty_limit :: int
  rest_hours :: int
  break_hours :: real
  avg_speed :: int
  fuel_time :: real
  pickup_time :: int
  dropoff_time :: int

definition TripSimulator_init :: "json \<Rightarrow> json \<Rightarrow> int \<Rightarrow> py_exception + TripSimulator" where
  "TripSimulator_init token_arg env_token current_cycle_used =
     (let token = (if truthy token_arg then token_arg else env_token)
      in if \<not> truthy token then Inl (ValueError ''Geoapify token is required'')
         else Inr \<lparr>geoapify_token = token,
                   remaining_cycle = 70 - current_cycle_used,
                   driving_limit = 11,
                   on_duty_limit = 14,
                   rest_hours = 10,
                   break_hours = 1/2,
                   avg_speed = 55,
                   fuel_time = 1/2,
                   pickup_time = 1,
                   dropoff_time = 1\<rparr>)"

subsection \<open>Time\<close>

type_synonym datetime = int
type_synonym timedelta = int

definition day_us :: int where
  "day_us = 86400000000"

text \<open>\<open>timedelta(hours=h)\<close>: the nearest microsecond, ties to even.\<close>

definition timedelta_hours :: "real \<Rightarrow> timedelta" where
  "timedelta_hours h = round_half_even (h * 3600000000)"

text \<open>\<open>now.replace(hour=0, minute=0, second=0, microsecond=0)\<close> and \<open>.date()\<close>.\<close>

definition replace_midnight :: "datetime \<Rightarrow> datetime" where
  "replace_midnight t = t - t mod day_us"

definition date_of :: "datetime \<Rightarrow> int" where
  "date_of t = t div day_us"

text \<open>
  \<open>td.total_seconds()\<close> divides the microseconds by \<open>10 ** 6\<close> as ints. \<open>x % m\<close> on floats
  is the exact remainder of the division truncated toward zero, to which \<open>m\<close> is added
  when it is not zero and its sign differs from the sign of \<open>m\<close>.
\<close>

definition total_seconds :: "timedelta \<Rightarrow> real" where
  "total_seconds td = int_truediv td 1000000"

definition py_fmod :: "real \<Rightarrow> real \<Rightarrow> real" where
  "py_fmod x m =
     (let q = x / m;
          r = x - m * of_int (if 0 \<le> q then \<lfloor>q\<rfloor> else \<lceil>q\<rceil>)
      in if r \<noteq> 0 \<and> (m < 0) \<noteq> (r < 0) then fadd r m else r)"

subsection \<open>Events and ELD log entries\<close>

text \<open>
  The dictionaries the timeline builds. \<open>start\<close> and \<open>start_time\<close> hold the datetime
  whose \<open>isoformat()\<close> the source stores; \<open>date\<close> the day whose \<open>isoformat()\<close> it stores.
\<close>

record event =
  etype :: string
  ehours :: real
  enote :: string
  start :: datetime

record log_entry =
  status :: string
  hours :: real
  description :: string
  start_time :: datetime
  elapsed_hours :: real

record daily_log =
  date :: int
  entries :: "log_entry list"
  total_driving :: real
  total_on_duty :: real

text \<open>
  \<^verbatim>\<open>
  def create_eld_log_entry(self, status, hours, description, start_time, day_start):
      elapsed_hours = (start_time - day_start).total_seconds() / 3600
      return {"status": status, "hours": hours, "description": description,
              "start_time": start_time.isoformat(),
              "elapsed_hours": round(elapsed_hours % 24, 2)}
  \<close>
\<close>

definition create_eld_log_entry ::
  "string \<Rightarrow> real \<Rightarrow> string \<Rightarrow> datetime \<Rightarrow> datetime \<Rightarrow> log_entry" where
  "create_eld_log_entry st hrs descr start_t day_start =
     (let elapsed = fdiv (total_seconds (start_t - day_start)) 3600
      in \<lparr>status = st, hours = hrs, description = descr, start_time = start_t,
          elapsed_hours = py_round (py_fmod elapsed 24) 2\<rparr>)"

subsection \<open>The timeline builder\<close>

text \<open>
  \<open>simulate_trip_timeline\<close>, statement by statement; \<open>clock\<close> is the value of the one
  call of \<open>datetime.now()\<close>. The three mutable locals \<open>events\<close>, \<open>current_log\<close> and \<open>now\<close>
  are rebound as the source updates them.
\<close>

definition simulate_trip_timeline ::
  "TripSimulator \<Rightarrow> real \<Rightarrow> real \<Rightarrow> int \<Rightarrow> datetime \<Rightarrow> event list \<times> daily_log list" where
  "simulate_trip_timeline self total_driving_hours total_distance num_fuel_stops clock =
     (let events = [];
          daily_logs = [];
          now = clock;
          current_day_start = replace_midnight now;
          current_log = \<lparr>date = date_of current_day_start, entries = [],
                         total_driving = 0, total_on_duty = 0\<rparr>;
          driving_remaining = total_driving_hours;
          drive_segment = min driving_remaining 2;
          events = events @ [\<lparr>etype = ''drive'', ehours = drive_segment,
                               enote = ''Driving to pickup location'', start = now\<rparr>];
          current_log = current_log\<lparr>entries := entries current_log @
             [create_eld_log_entry ''D'' drive_segment ''Driving to pickup'' now current_day_start]\<rparr>;
          driving_remaining = driving_remaining - drive_segment;
          now = now + timedelta_hours drive_segment;
          events = events @ [\<lparr>etype = ''pickup'', ehours = of_int (pickup_time self),
                               enote = ''Loading at pickup location'', start = now\<rparr>];
          current_log = current_log\<lparr>entries := entries current_log @
             [create_eld_log_entry ''ON'' (of_int (pickup_time self)) ''Loading'' now
                current_day_start]\<rparr>;
          now = now + timedelta_hours (of_int (pickup_time self));
          (events, current_log, now) =
             (if driving_remaining > 0
              then (events @ [\<lparr>etype = ''drive'', ehours = driving_remaining,
                                  enote = ''Main route to destination'', start = now\<rparr>],
                    current_log\<lparr>entries := entries current_log @
                      [create_eld_log_entry ''D'' driving_remaining ''Route driving'' now
                         current_day_start]\<rparr>,
                    now + timedelta_hours driving_remaining)
              else (events, current_log, now));
          events = events @ [\<lparr>etype = ''dropoff'', ehours = of_int (dropoff_time self),
                               enote = ''Unloading at destination'', start = now\<rparr>];
          current_log = current_log\<lparr>entries := entries current_log @
             [create_eld_log_entry ''ON'' (of_int (dropoff_time self)) ''Unloading'' now
                current_day_start]\<rparr>;
          current_log = current_log\<lparr>total_driving := total_driving_hours\<rparr>;
          current_log = current_log\<lparr>total_on_duty :=
             total_driving_hours + of_int (pickup_time self) + of_int (dropoff_time self)\<rparr>;
          daily_logs = daily_logs @ [current_log]
      in (events, daily_logs))"

subsection \<open>The provider adapters\<close>

text \<open>
  \<open>geocode(address)\<close> makes one HTTP request and returns the pair \<open>(lat, lon)\<close> of the first
  feature of the answer, or raises (\<open>ValueError\<close> for a transport failure or an empty
  answer, any other exception for an answer of another shape). \<open>get_route(start, end)\<close>
  makes one HTTP request and returns the dictionary of the route (\<open>geojson\<close>, \<open>distance\<close>
  in miles, \<open>duration\<close> in hours, \<open>fuel_locations\<close>), or raises \<open>ValueError\<close>.
  What the provider answers is outside the program: the network gives the outcome of each
  call (the value returned or the exception raised), and may let it depend on the requests
  made so far. The adapters record the request they make, so that the list of requests is
  the trace of the network calls of a run.
\<close>

type_synonym coord = "real \<times> real"

record route =
  geojson :: string
  distance :: real
  duration :: real
  route_fuel_locations :: "coord list"

datatype 'a request = GeocodeRequest 'a | RoutingRequest coord coord

record 'a network =
  geocode_outcome :: "'a request list \<Rightarrow> 'a \<Rightarrow> py_exception + coord"
  get_route_outcome :: "'a request list \<Rightarrow> coord \<Rightarrow> coord \<Rightarrow> py_exception + route"

definition geocode ::
  "'a network \<Rightarrow> 'a \<Rightarrow> 'a request list \<Rightarrow> (py_exception + coord) \<times> 'a request list" where
  "geocode net address trace = (geocode_outcome net trace address, trace @ [GeocodeRequest address])"

definition get_route ::
  "'a network \<Rightarrow> coord \<Rightarrow> coord \<Rightarrow> 'a request list
     \<Rightarrow> (py_exception + route) \<times> 'a request list" where
  "get_route net start_coords end_coords trace =
     (get_route_outcome net trace start_coords end_coords,
      trace @ [RoutingRequest start_coords end_coords])"

subsection \<open>Fuel locations\<close>

text \<open>\<open>str(k)\<close> for an int, in decimal.\<close>

definition digit_char :: "nat \<Rightarrow> char" where
  "digit_char n = ''0123456789'' ! n"

fun str_nat :: "nat \<Rightarrow> string" where
  "str_nat n = (if n < 10 then [digit_char n] else str_nat (n div 10) @ [digit_char (n mod 10)])"

declare str_nat.simps [simp del]

definition str_int :: "int \<Rightarrow> string" where
  "str_int k = (if k < 0 then CHR ''-'' # str_nat (nat (- k)) else str_nat (nat k))"

text \<open>\<open>range(n)\<close>.\<close>

definition py_range :: "int \<Rightarrow> int list" where
  "py_range n = map int [0..<nat n]"

record fuel_location =
  lat :: real
  lng :: real
  name :: string
  distance_from_start :: int

text \<open>
  \<^verbatim>\<open>
  fuel_locations = []
  if num_fuel_stops > 0:
      for i in range(num_fuel_stops):
          fraction = (i + 1) / (num_fuel_stops + 1)
          lat = pickup_coords[0] + fraction * (dropoff_coords[0] - pickup_coords[0])
          lng = pickup_coords[1] + fraction * (dropoff_coords[1] - pickup_coords[1])
          fuel_locations.append({
              "lat": round(lat, 6), "lng": round(lng, 6),
              "name": f"Fuel Stop {i+1}",
              "distance_from_start": round((i + 1) * 1000, 1)})
  \<close>
  The loop body is \<open>fuel_location_at\<close>, the loop \<open>fuel_locations_loop\<close> over the values of
  \<open>i\<close> still to come, and the whole block \<open>simulate_fuel_locations\<close>.
\<close>

definition fuel_location_at :: "int \<Rightarrow> int \<Rightarrow> coord \<Rightarrow> coord \<Rightarrow> fuel_location" where
  "fuel_location_at i num_fuel_stops pickup_coords dropoff_coords =
     (let fraction = int_truediv (i + 1) (num_fuel_stops + 1);
          lat_v = fadd (fst pickup_coords)
                    (fmul fraction (fsub (fst dropoff_coords) (fst pickup_coords)));
          lng_v = fadd (snd pickup_coords)
                    (fmul fraction (fsub (snd dropoff_coords) (snd pickup_coords)))
      in \<lparr>lat = py_round lat_v 6,
          lng = py_round lng_v 6,
          name = ''Fuel Stop '' @ str_int (i + 1),
          distance_from_start = py_round_int ((i + 1) * 1000) 1\<rparr>)"

fun fuel_locations_loop ::
  "int list \<Rightarrow> int \<Rightarrow> coord \<Rightarrow> coord \<Rightarrow> fuel_location list \<Rightarrow> fuel_location list" where
  "fuel_locations_loop [] num_fuel_stops pickup_coords dropoff_coords fuel_locations =
     fuel_locations"
| "fuel_locations_loop (i # rest) num_fuel_stops pickup_coords dropoff_coords fuel_locations =
     fuel_locations_loop rest num_fuel_stops pickup_coords dropoff_coords
       (fuel_locations @ [fuel_location_at i num_fuel_stops pickup_coords dropoff_coords])"

definition simulate_fuel_locations :: "int \<Rightarrow> coord \<Rightarrow> coord \<Rightarrow> fuel_location list" where
  "simulate_fuel_locations num_fuel_stops pickup_coords dropoff_coords =
     (if num_fuel_stops > 0
      then fuel_locations_loop (py_range num_fuel_stops) num_fuel_stops pickup_coords
             dropoff_coords []
      else [])"

subsection \<open>The orchestrator\<close>

text \<open>
  The dictionary \<open>simulate\<close> returns; each field \<open>res_k\<close> is the key \<open>k\<close>.
\<close>

record simulation_result =
  res_events :: "event list"
  res_daily_logs :: "daily_log list"
  res_total_distance :: real
  res_total_driving_hours :: real
  res_route_geojson :: string
  res_fuel_stops :: int
  res_fuel_locations :: "fuel_location list"
  res_remaining_cycle_hours :: real
  res_status :: string
  res_message :: string

text \<open>
  The body of the \<open>try\<close> block of \<open>simulate\<close>: three geocoding calls, two routing calls,
  each of which may raise, then the fuel stops, the timeline and the result.
\<close>

definition simulate_try ::
  "TripSimulator \<Rightarrow> 'a network \<Rightarrow> datetime \<Rightarrow> 'a \<Rightarrow> 'a \<Rightarrow> 'a \<Rightarrow> 'a request list
     \<Rightarrow> (py_exception + simulation_result) \<times> 'a request list" where
  "simulate_try self net clock current_addr pickup_addr dropoff_addr trace =
     (case geocode net current_addr trace of
        (Inl e, trace1) \<Rightarrow> (Inl e, trace1)
      | (Inr current_coords, trace1) \<Rightarrow>
     (case geocode net pickup_addr trace1 of
        (Inl e, trace2) \<Rightarrow> (Inl e, trace2)
      | (Inr pickup_coords, trace2) \<Rightarrow>
     (case geocode net dropoff_addr trace2 of
        (Inl e, trace3) \<Rightarrow> (Inl e, trace3)
      | (Inr dropoff_coords, trace3) \<Rightarrow>
     (case get_route net current_coords pickup_coords trace3 of
        (Inl e, trace4) \<Rightarrow> (Inl e, trace4)
      | (Inr route_to_pickup, trace4) \<Rightarrow>
     (case get_route net pickup_coords dropoff_coords trace4 of
        (Inl e, trace5) \<Rightarrow> (Inl e, trace5)
      | (Inr main_route, trace5) \<Rightarrow>
     (let total_distance = fadd (distance route_to_pickup) (distance main_route);
          total_driving_hours = fadd (duration route_to_pickup) (duration main_route);
          num_fuel_stops = calculate_fuel_stops total_distance;
          fuel_locations = simulate_fuel_locations num_fuel_stops pickup_coords dropoff_coords;
          (events, daily_logs) =
             simulate_trip_timeline self total_driving_hours total_distance num_fuel_stops clock
      in (Inr \<lparr>res_events = events,
                res_daily_logs = daily_logs,
                res_total_distance = py_round total_distance 1,
                res_total_driving_hours = py_round total_driving_hours 1,
                res_route_geojson = geojson main_route,
                res_fuel_stops = num_fuel_stops,
                res_fuel_locations = fuel_locations,
                res_remaining_cycle_hours =
                  py_round
                    (fsub (fsub (fsub (fsub (float_of_int (remaining_cycle self))
                                         total_driving_hours)
                                   (float_of_int (pickup_time self)))
                             (float_of_int (dropoff_time self)))
                       (fmul (float_of_int num_fuel_stops) (fuel_time self))) 1,
                res_status = ''success'',
                res_message = ''Trip simulation completed successfully''\<rparr>,
          trace5)))))))"

text \<open>
  \<^verbatim>\<open>
  def simulate(self, current_addr, pickup_addr, dropoff_addr):
      if self.remaining_cycle < 10:
          raise ValueError("Insufficient cycle hours remaining (minimum 10 required)")
      try:
          ...
      except Exception as e:
          raise ValueError(f"Simulation failed: {str(e)}")
  \<close>
\<close>

definition simulate ::
  "TripSimulator \<Rightarrow> 'a network \<Rightarrow> datetime \<Rightarrow> 'a \<Rightarrow> 'a \<Rightarrow> 'a \<Rightarrow> 'a request list
     \<Rightarrow> (py_exception + simulation_result) \<times> 'a request list" where
  "simulate self net clock current_addr pickup_addr dropoff_addr trace =
     (if remaining_cycle self < 10
      then (Inl (ValueError ''Insufficient cycle hours remaining (minimum 10 required)''), trace)
      else (case simulate_try self net clock current_addr pickup_addr dropoff_addr trace of
              (Inl e, trace') \<Rightarrow> (Inl (ValueError (''Simulation failed: '' @ exc_str e)), trace')
            | (Inr result, trace') \<Rightarrow> (Inr result, trace')))"

subsection \<open>The request handler\<close>

text \<open>
  \<open>int(x)\<close> on a decoded JSON value. For a string: surrounding whitespace (space, and the
  characters 9 to 13) is stripped, one sign is allowed, and the digits may be grouped by
  single underscores. Strings are read as ASCII; decimal digits and whitespace outside
  ASCII, and the length limit on the digit string, are outside the model.
\<close>

definition is_space :: "char \<Rightarrow> bool" where
  "is_space ch = (let k = (of_char ch :: nat) in (9 \<le> k \<and> k \<le> 13) \<or> k = 32)"

definition is_digit :: "char \<Rightarrow> bool" where
  "is_digit ch = (let k = (of_char ch :: nat) in 48 \<le> k \<and> k \<le> 57)"

definition digit_val :: "char \<Rightarrow> nat" where
  "digit_val ch = of_char ch - 48"

definition strip :: "string \<Rightarrow> string" where
  "strip s = rev (dropWhile is_space (rev (dropWhile is_space s)))"

text \<open>The digits after a digit: \<open>acc\<close> is the number read so far.\<close>

fun int_digits :: "nat \<Rightarrow> string \<Rightarrow> nat option" where
  "int_digits acc [] = Some acc"
| "int_digits acc [ch] = (if is_digit ch then Some (acc * 10 + digit_val ch) else None)"
| "int_digits acc (ch # ch' # cs) =
     (if is_digit ch then int_digits (acc * 10 + digit_val ch) (ch' # cs)
      else if ch = CHR ''_'' \<and> is_digit ch' then int_digits (acc * 10 + digit_val ch') cs
      else None)"

definition int_literal :: "string \<Rightarrow> nat option" where
  "int_literal s =
     (case s of
        [] \<Rightarrow> None
      | ch # cs \<Rightarrow> if is_digit ch then int_digits (digit_val ch) cs else None)"

definition py_int_str :: "string \<Rightarrow> int option" where
  "py_int_str s =
     (case strip s of
        [] \<Rightarrow> None
      | ch # cs \<Rightarrow>
          if ch = CHR ''-'' then map_option (\<lambda>n. - int n) (int_literal cs)
          else if ch = CHR ''+'' then map_option int (int_literal cs)
          else map_option int (int_literal (ch # cs)))"

fun py_int :: "json \<Rightarrow> py_exception + int" where
  "py_int (JInt n) = Inr n"
| "py_int (JBool b) = Inr (if b then 1 else 0)"
| "py_int (JFloat (Finite x)) = Inr (if 0 \<le> x then \<lfloor>x\<rfloor> else \<lceil>x\<rceil>)"
| "py_int (JFloat NaN) = Inl (ValueError ''cannot convert float NaN to integer'')"
| "py_int (JFloat PosInf) = Inl (OverflowError ''cannot convert float infinity to integer'')"
| "py_int (JFloat NegInf) = Inl (OverflowError ''cannot convert float infinity to integer'')"
| "py_int (JStr s) =
     (case py_int_str s of
        Some n \<Rightarrow> Inr n
      | None \<Rightarrow> Inl (ValueError ''invalid literal for int() with base 10''))"
| "py_int JNull = Inl (TypeError ''int() argument must be a string or a real number'')"
| "py_int (JList xs) = Inl (TypeError ''int() argument must be a string or a real number'')"
| "py_int (JDict kvs) = Inl (TypeError ''int() argument must be a string or a real number'')"

text \<open>
  The body of a request is a JSON object, a dictionary from keys to JSON values.
  \<^verbatim>\<open>
  try:
      current_cycle_used = int(data.get('current_cycle_used', 0))
  except (ValueError, TypeError):
      current_cycle_used = 0
  \<close>
\<close>

type_synonym request_data = "string \<rightharpoonup> json"

definition parse_current_cycle_used :: "request_data \<Rightarrow> py_exception + int" where
  "parse_current_cycle_used data =
     (case py_int (case data ''current_cycle_used'' of None \<Rightarrow> JInt 0 | Some v \<Rightarrow> v) of
        Inr n \<Rightarrow> Inr n
      | Inl (ValueError m) \<Rightarrow> Inr 0
      | Inl (TypeError m) \<Rightarrow> Inr 0
      | Inl e \<Rightarrow> Inl e)"

text \<open>\<open>data[key]\<close>, and \<open>data.get(key)\<close> with its default \<open>None\<close>.\<close>

definition data_item :: "request_data \<Rightarrow> string \<Rightarrow> py_exception + json" where
  "data_item data k = (case data k of None \<Rightarrow> Inl (KeyError k) | Some v \<Rightarrow> Inr v)"

definition data_get :: "request_data \<Rightarrow> string \<Rightarrow> json" where
  "data_get data k = (case data k of None \<Rightarrow> JNull | Some v \<Rightarrow> v)"

text \<open>The responses of the view: a status code and one of three bodies.\<close>

datatype response_body =
    ErrorBody string string
  | InternalErrorBody string string
  | ResultBody simulation_result

record response =
  status_code :: nat
  body :: response_body

text \<open>The loop over \<open>required_fields\<close>: the first field that is missing, if any.\<close>

fun missing_field :: "string list \<Rightarrow> request_data \<Rightarrow> string option" where
  "missing_field [] data = None"
| "missing_field (field # rest) data =
     (if data field = None then Some field else missing_field rest data)"

definition required_fields :: "string list" where
  "required_fields = [''current_location'', ''pickup_location'', ''dropoff_location'']"

text \<open>
  The statements of \<open>simulate_trip\<close> after the check of the required fields, up to the
  result of \<open>sim.simulate\<close>; an exception leaves them at the statement that raises it.
\<close>

definition simulate_trip_run ::
  "json network \<Rightarrow> json \<Rightarrow> datetime \<Rightarrow> request_data \<Rightarrow> json request list
     \<Rightarrow> (py_exception + simulation_result) \<times> json request list" where
  "simulate_trip_run net env_token clock data trace =
     (case parse_current_cycle_used data of
        Inl e \<Rightarrow> (Inl e, trace)
      | Inr current_cycle_used \<Rightarrow>
     (case TripSimulator_init (data_get data ''geoapify_token'') env_token current_cycle_used of
        Inl e \<Rightarrow> (Inl e, trace)
      | Inr sim \<Rightarrow>
     (case data_item data ''current_location'' of
        Inl e \<Rightarrow> (Inl e, trace)
      | Inr current_location \<Rightarrow>
     (case data_item data ''pickup_location'' of
        Inl e \<Rightarrow> (Inl e, trace)
      | Inr pickup_location \<Rightarrow>
     (case data_item data ''dropoff_location'' of
        Inl e \<Rightarrow> (Inl e, trace)
      | Inr dropoff_location \<Rightarrow>
          simulate sim net clock current_location pickup_location dropoff_location trace)))))"

text \<open>
  \<^verbatim>\<open>
  def simulate_trip(request):
      try:
          data = request.data
          for field in required_fields:
              if field not in data:
                  return Response({'error': f'Missing required field: {field}',
                                   'type': 'validation_error'}, status=400)
          ...
          return Response(result)
      except ValueError as e:
          return Response({'error': str(e), 'type': 'validation_error'}, status=400)
      except Exception as e:
          return Response({'error': 'Internal server error', 'details': str(e)}, status=500)
  \<close>
\<close>

definition simulate_trip ::
  "json network \<Rightarrow> json \<Rightarrow> datetime \<Rightarrow> request_data \<Rightarrow> json request list
     \<Rightarrow> response \<times> json request list" where
  "simulate_trip net env_token clock data trace =
     (case missing_field required_fields data of
        Some field \<Rightarrow>
          (\<lparr>status_code = 400,
            body = ErrorBody (''Missing required field: '' @ field) ''validation_error''\<rparr>,
           trace)
      | None \<Rightarrow>
          (case simulate_trip_run net env_token clock data trace of
             (Inr result, trace') \<Rightarrow> (\<lparr>status_code = 200, body = ResultBody result\<rparr>, trace')
           | (Inl (ValueError m), trace') \<Rightarrow>
               (\<lparr>status_code = 400, body = ErrorBody m ''validation_error''\<rparr>, trace')
           | (Inl e, trace') \<Rightarrow>
               (\<lparr>status_code = 500,
                 body = InternalErrorBody ''Internal server error'' (exc_str e)\<rparr>, trace')))"

section \<open>Properties\<close>

subsection \<open>Shared facts\<close>

lemma init_fields:
  assumes "TripSimulator_init tok env used = Inr self"
  shows "pickup_time self = 1" and "dropoff_time self = 1" and "fuel_time self = 1/2"
    and "remaining_cycle self = 70 - used"
  using assms by (auto simp: TripSimulator_init_def Let_def split: if_splits)

lemma timeline_events:
  "fst (simulate_trip_timeline self h d n clock) =
     \<lparr>etype = ''drive'', ehours = min h 2, enote = ''Driving to pickup location'',
       start = clock\<rparr> #
     \<lparr>etype = ''pickup'', ehours = of_int (pickup_time self),
       enote = ''Loading at pickup location'', start = clock + timedelta_hours (min h 2)\<rparr> #
     (if 2 < h
      then [\<lparr>etype = ''drive'', ehours = h - 2, enote = ''Main route to destination'',
              start = clock + timedelta_hours (min h 2)
                      + timedelta_hours (of_int (pickup_time self))\<rparr>,
            \<lparr>etype = ''dropoff'', ehours = of_int (dropoff_time self),
              enote = ''Unloading at destination'',
              start = clock + timedelta_hours (min h 2)
                      + timedelta_hours (of_int (pickup_time self)) + timedelta_hours (h - 2)\<rparr>]
      else [\<lparr>etype = ''dropoff'', ehours = of_int (dropoff_time self),
              enote = ''Unloading at destination'',
              start = clock + timedelta_hours (min h 2)
                      + timedelta_hours (of_int (pickup_time self))\<rparr>])"
  by (simp add: simulate_trip_timeline_def Let_def)

lemma timeline_logs:
  "snd (simulate_trip_timeline self h d n clock) =
     [\<lparr>date = date_of (replace_midnight clock),
       entries =
         create_eld_log_entry ''D'' (min h 2) ''Driving to pickup'' clock
           (replace_midnight clock) #
         create_eld_log_entry ''ON'' (of_int (pickup_time self)) ''Loading''
           (clock + timedelta_hours (min h 2)) (replace_midnight clock) #
         (if 2 < h
          then [create_eld_log_entry ''D'' (h - 2) ''Route driving''
                  (clock + timedelta_hours (min h 2)
                   + timedelta_hours (of_int (pickup_time self)))
                  (replace_midnight clock),
                create_eld_log_entry ''ON'' (of_int (dropoff_time self)) ''Unloading''
                  (clock + timedelta_hours (min h 2)
                   + timedelta_hours (of_int (pickup_time self)) + timedelta_hours (h - 2))
                  (replace_midnight clock)]
          else [create_eld_log_entry ''ON'' (of_int (dropoff_time self)) ''Unloading''
                  (clock + timedelta_hours (min h 2)
                   + timedelta_hours (of_int (pickup_time self)))
                  (replace_midnight clock)]),
       total_driving = h,
       total_on_duty = h + of_int (pickup_time self) + of_int (dropoff_time self)\<rparr>]"
  by (simp add: simulate_trip_timeline_def Let_def)

lemma create_eld_log_entry_fields:
  "status (create_eld_log_entry st hrs descr t ds) = st"
  "hours (create_eld_log_entry st hrs descr t ds) = hrs"
  "description (create_eld_log_entry st hrs descr t ds) = descr"
  "start_time (create_eld_log_entry st hrs descr t ds) = t"
  by (simp_all add: create_eld_log_entry_def Let_def)

lemma remain_iff: "(0 < h - min h 2) = (2 < (h::real))"
  by (simp add: min_def)

lemma timeline_self_fields:
  assumes "pickup_time s1 = pickup_time s2" and "dropoff_time s1 = dropoff_time s2"
  shows "simulate_trip_timeline s1 h d n clock = simulate_trip_timeline s2 h d n clock"
  unfolding simulate_trip_timeline_def assms ..

lemmas fl_eval = fl_def float_exponent_def bit_length.simps round_half_even_def Let_def

lemma float_of_int_small:
  "float_of_int 0 = 0" "float_of_int 1 = 1"
  by (simp_all add: float_of_int_def fl_eval)

lemma round_half_even_close: "\<bar>of_int (round_half_even y) - y\<bar> \<le> 1 / 2"
proof -
  have lo: "of_int \<lfloor>y\<rfloor> \<le> y" and hi: "y < of_int \<lfloor>y\<rfloor> + 1"
    by linarith+
  show ?thesis
    using lo hi by (auto simp: round_half_even_def Let_def)
qed

lemma py_round_close:
  "\<exists>k::int. py_round x n = fl (of_int k / 10 ^ n) \<and> \<bar>of_int k / 10 ^ n - x\<bar> \<le> 1 / (2 * 10 ^ n)"
proof -
  define k where "k = round_half_even (x * 10 ^ n)"
  have "of_int k / 10 ^ n - x = (of_int k - x * 10 ^ n) / 10 ^ n"
    by (simp add: field_simps)
  then have "\<bar>of_int k / 10 ^ n - x\<bar> = \<bar>of_int k - x * 10 ^ n\<bar> / 10 ^ n"
    by (simp add: abs_divide)
  also have "\<dots> \<le> (1 / 2) / 10 ^ n"
    unfolding k_def by (intro divide_right_mono round_half_even_close) simp
  finally have "\<bar>of_int k / 10 ^ n - x\<bar> \<le> 1 / (2 * 10 ^ n)"
    by simp
  moreover have "py_round x n = fl (of_int k / 10 ^ n)"
    by (simp add: py_round_def k_def)
  ultimately show ?thesis by blast
qed

lemma fuel_locations_loop_map:
  "fuel_locations_loop js n p d acc = acc @ map (\<lambda>i. fuel_location_at i n p d) js"
  by (induction js arbitrary: acc) simp_all

lemma simulate_fuel_locations_map:
  assumes "0 < n"
  shows "simulate_fuel_locations n p d = map (\<lambda>k. fuel_location_at (int k) n p d) [0..<nat n]"
  using assms
  by (simp add: simulate_fuel_locations_def fuel_locations_loop_map py_range_def comp_def)

lemma fuel_location_at_fields:
  "name (fuel_location_at i n p d) = ''Fuel Stop '' @ str_int (i + 1)"
  "distance_from_start (fuel_location_at i n p d) = (i + 1) * 1000"
  "lat (fuel_location_at i n p d) =
     py_round (fadd (fst p) (fmul (int_truediv (i + 1) (n + 1)) (fsub (fst d) (fst p)))) 6"
  "lng (fuel_location_at i n p d) =
     py_round (fadd (snd p) (fmul (int_truediv (i + 1) (n + 1)) (fsub (snd d) (snd p)))) 6"
  by (simp_all add: fuel_location_at_def Let_def py_round_int_def)

lemma fraction_bounds:
  fixes i n :: int
  assumes "1 \<le> i" and "i \<le> n"
  shows "0 < (of_int i / of_int (n + 1) :: real)" and "(of_int i / of_int (n + 1) :: real) < 1"
  using assms by simp_all

lemma distances_sorted:
  "sorted_wrt (<) (map (\<lambda>k. distance_from_start (fuel_location_at (int k) n p d)) [0..<m])"
  by (simp add: sorted_wrt_map fuel_location_at_fields sorted_wrt_iff_nth_less)

lemma simulate_fuel_locations_nth:
  assumes "1 \<le> i" and "i \<le> n"
  shows "simulate_fuel_locations n p d ! nat (i - 1) = fuel_location_at (i - 1) n p d"
proof -
  have n: "0 < n" using assms by simp
  have lt: "nat (i - 1) < nat n" using assms by simp
  have "simulate_fuel_locations n p d ! nat (i - 1) =
          fuel_location_at (int ([0..<nat n] ! nat (i - 1))) n p d"
    unfolding simulate_fuel_locations_map[OF n] using lt by (simp only: nth_map length_upt diff_zero)
  also have "[0..<nat n] ! nat (i - 1) = nat (i - 1)"
    using lt by simp
  also have "int (nat (i - 1)) = i - 1"
    using assms(1) by simp
  finally show ?thesis .
qed

lemma str_int_1: "str_int 1 = ''1''"
  by (simp add: str_int_def str_nat.simps digit_char_def)

lemma simulate_refused:
  assumes "remaining_cycle self < 10"
  shows "simulate self net clock a b c trace =
           (Inl (ValueError ''Insufficient cycle hours remaining (minimum 10 required)''), trace)"
  using assms by (simp add: simulate_def)

lemma simulate_not_refused:
  assumes "\<not> remaining_cycle self < 10"
  shows "fst (simulate self net clock a b c trace) \<noteq>
           Inl (ValueError ''Insufficient cycle hours remaining (minimum 10 required)'')"
  using assms by (simp add: simulate_def split: prod.splits sum.splits)

lemma simulate_try_success:
  assumes "geocode_outcome net trace a = Inr cc"
    and "geocode_outcome net (trace @ [GeocodeRequest a]) b = Inr pc"
    and "geocode_outcome net (trace @ [GeocodeRequest a, GeocodeRequest b]) c = Inr dc"
    and "get_route_outcome net (trace @ [GeocodeRequest a, GeocodeRequest b, GeocodeRequest c])
           cc pc = Inr rp"
    and "get_route_outcome net
           (trace @ [GeocodeRequest a, GeocodeRequest b, GeocodeRequest c, RoutingRequest cc pc])
           pc dc = Inr mr"
  shows "simulate_try self net clock a b c trace =
     (Inr \<lparr>res_events = fst (simulate_trip_timeline self (fadd (duration rp) (duration mr))
               (fadd (distance rp) (distance mr)) (calculate_fuel_stops (fadd (distance rp) (distance mr))) clock),
           res_daily_logs = snd (simulate_trip_timeline self (fadd (duration rp) (duration mr))
               (fadd (distance rp) (distance mr)) (calculate_fuel_stops (fadd (distance rp) (distance mr))) clock),
           res_total_distance = py_round (fadd (distance rp) (distance mr)) 1,
           res_total_driving_hours = py_round (fadd (duration rp) (duration mr)) 1,
           res_route_geojson = geojson mr,
           res_fuel_stops = calculate_fuel_stops (fadd (distance rp) (distance mr)),
           res_fuel_locations =
             simulate_fuel_locations (calculate_fuel_stops (fadd (distance rp) (distance mr))) pc dc,
           res_remaining_cycle_hours =
             py_round (fsub (fsub (fsub (fsub (float_of_int (remaining_cycle self)) (fadd (duration rp) (duration mr))) (float_of_int (pickup_time self))) (float_of_int (dropoff_time self)))
                        (fmul (float_of_int (calculate_fuel_stops (fadd (distance rp) (distance mr)))) (fuel_time self))) 1,
           res_status = ''success'',
           res_message = ''Trip simulation completed successfully''\<rparr>,
      trace @ [GeocodeRequest a, GeocodeRequest b, GeocodeRequest c, RoutingRequest cc pc,
               RoutingRequest pc dc])"
  using assms
  by (simp add: simulate_try_def geocode_def get_route_def Let_def case_prod_beta)

lemma simulate_try_result:
  assumes "simulate_try self net clock a b c trace = (Inr r, trace')"
  shows "\<exists>lg. res_daily_logs r = [lg] \<and>
           res_remaining_cycle_hours r =
             py_round (fsub (fsub (fsub (fsub (float_of_int (remaining_cycle self)) (total_driving lg)) (float_of_int (pickup_time self))) (float_of_int (dropoff_time self)))
                        (fmul (float_of_int (res_fuel_stops r)) (fuel_time self))) 1"
  using assms
  by (auto simp: simulate_try_def geocode_def get_route_def Let_def case_prod_beta timeline_logs
           split: sum.splits)

lemma simulate_try_inversion:
  assumes "simulate_try self net clock a b c trace = (Inr r, trace')"
  shows "\<exists>cc pc dc rp mr.
           geocode_outcome net trace a = Inr cc \<and>
           geocode_outcome net (trace @ [GeocodeRequest a]) b = Inr pc \<and>
           geocode_outcome net (trace @ [GeocodeRequest a, GeocodeRequest b]) c = Inr dc \<and>
           get_route_outcome net (trace @ [GeocodeRequest a, GeocodeRequest b, GeocodeRequest c])
             cc pc = Inr rp \<and>
           get_route_outcome net
             (trace @ [GeocodeRequest a, GeocodeRequest b, GeocodeRequest c, RoutingRequest cc pc])
             pc dc = Inr mr"
  using assms
  by (auto simp: simulate_try_def geocode_def get_route_def split: sum.splits)

lemma simulate_Inr:
  assumes "simulate self net clock a b c trace = (Inr r, trace')"
  shows "\<not> remaining_cycle self < 10"
    and "simulate_try self net clock a b c trace = (Inr r, trace')"
  using assms by (auto simp: simulate_def split: if_splits prod.splits sum.splits)

text \<open>
  A run used in the examples below: a simulator with no cycle hours used, and a network
  that geocodes every address and answers every routing request with a route of 1250
  miles and 40 hours.
\<close>

lemma example_run:
  "simulate (projr (TripSimulator_init (JStr ''key'') JNull 0))
       \<lparr>geocode_outcome = \<lambda>tr ad. Inr (0, 0),
        get_route_outcome = \<lambda>tr s e.
          Inr \<lparr>geojson = ''line'', distance = 1250, duration = 40,
               route_fuel_locations = []\<rparr>\<rparr>
       0 ''A'' ''B'' ''C'' [] =
     (Inr (projr (fst (simulate (projr (TripSimulator_init (JStr ''key'') JNull 0))
       \<lparr>geocode_outcome = \<lambda>tr ad. Inr (0, 0),
        get_route_outcome = \<lambda>tr s e.
          Inr \<lparr>geojson = ''line'', distance = 1250, duration = 40,
               route_fuel_locations = []\<rparr>\<rparr>
       0 ''A'' ''B'' ''C'' []))),
      snd (simulate (projr (TripSimulator_init (JStr ''key'') JNull 0))
       \<lparr>geocode_outcome = \<lambda>tr ad. Inr (0, 0),
        get_route_outcome = \<lambda>tr s e.
          Inr \<lparr>geojson = ''line'', distance = 1250, duration = 40,
               route_fuel_locations = []\<rparr>\<rparr>
       0 ''A'' ''B'' ''C'' []))"
proof -
  have "\<not> remaining_cycle (projr (TripSimulator_init (JStr ''key'') JNull 0)) < 10"
    by (simp add: TripSimulator_init_def)
  then show ?thesis
    by (simp add: simulate_def simulate_try_success)
qed

text \<open>
  A second run: the same simulator, and a network that answers every routing request with
  a route of 20 miles and 990 seconds, which \<open>get_route\<close> returns as the float
  \<open>990 / 3600\<close>.
\<close>

lemma example_run_short:
  "simulate (projr (TripSimulator_init (JStr ''key'') JNull 0))
       \<lparr>geocode_outcome = \<lambda>tr ad. Inr (0, 0),
        get_route_outcome = \<lambda>tr s e.
          Inr \<lparr>geojson = ''line'', distance = 20, duration = fl (11 / 40),
               route_fuel_locations = []\<rparr>\<rparr>
       0 ''A'' ''B'' ''C'' [] =
     (Inr (projr (fst (simulate (projr (TripSimulator_init (JStr ''key'') JNull 0))
       \<lparr>geocode_outcome = \<lambda>tr ad. Inr (0, 0),
        get_route_outcome = \<lambda>tr s e.
          Inr \<lparr>geojson = ''line'', distance = 20, duration = fl (11 / 40),
               route_fuel_locations = []\<rparr>\<rparr>
       0 ''A'' ''B'' ''C'' []))),
      snd (simulate (projr (TripSimulator_init (JStr ''key'') JNull 0))
       \<lparr>geocode_outcome = \<lambda>tr ad. Inr (0, 0),
        get_route_outcome = \<lambda>tr s e.
          Inr \<lparr>geojson = ''line'', distance = 20, duration = fl (11 / 40),
               route_fuel_locations = []\<rparr>\<rparr>
       0 ''A'' ''B'' ''C'' []))"
proof -
  have "\<not> remaining_cycle (projr (TripSimulator_init (JStr ''key'') JNull 0)) < 10"
    by (simp add: TripSimulator_init_def)
  then show ?thesis
    by (simp add: simulate_def simulate_try_success)
qed

lemma remaining_cycle_examples:
  "py_round (fsub (fsub (fsub (fsub (float_of_int 70) (fadd 40 40)) 1) 1)
               (fmul (float_of_int 2) (1 / 2))) 1 = - 13"
  "py_round (fsub (fsub (fsub (fsub (float_of_int 70) (fadd (fl (11 / 40)) (fl (11 / 40)))) 1) 1)
               (fmul (float_of_int 0) (1 / 2))) 1 = 135 / 2"
  "calculate_fuel_stops (fadd 1250 1250) = 2"
  "calculate_fuel_stops (fadd 20 20) = 0"
  by (simp_all add: py_round_def fadd_def fsub_def fmul_def float_of_int_def
        calculate_fuel_stops_def fl_eval)

lemma remaining_cycle_unrounded:
  "fsub (fsub (fsub (fsub (float_of_int 70) (fadd 40 40)) 1) 1)
      (fmul (float_of_int 2) (1 / 2)) = - 13"
  "fsub (fsub (fsub (fsub (float_of_int 70) (fadd (fl (11 / 40)) (fl (11 / 40)))) 1) 1)
      (fmul (float_of_int 0) (1 / 2)) = 4746371794783437 / 70368744177664"
  "fl (- 13) = - 13"
  "fl (135 / 2) = 135 / 2"
  by (simp_all add: fadd_def fsub_def fmul_def float_of_int_def fl_eval)

lemma example_run_result:
  "res_fuel_stops (projr (fst (simulate (projr (TripSimulator_init (JStr ''key'') JNull 0))
       \<lparr>geocode_outcome = \<lambda>tr ad. Inr (0, 0),
        get_route_outcome = \<lambda>tr s e.
          Inr \<lparr>geojson = ''line'', distance = 1250, duration = 40,
               route_fuel_locations = []\<rparr>\<rparr>
       0 ''A'' ''B'' ''C'' []))) = 2"
  "res_daily_logs (projr (fst (simulate (projr (TripSimulator_init (JStr ''key'') JNull 0))
       \<lparr>geocode_outcome = \<lambda>tr ad. Inr (0, 0),
        get_route_outcome = \<lambda>tr s e.
          Inr \<lparr>geojson = ''line'', distance = 1250, duration = 40,
               route_fuel_locations = []\<rparr>\<rparr>
       0 ''A'' ''B'' ''C'' []))) = [lg] \<Longrightarrow> total_driving lg = fadd 40 40"
  "res_fuel_stops (projr (fst (simulate (projr (TripSimulator_init (JStr ''key'') JNull 0))
       \<lparr>geocode_outcome = \<lambda>tr ad. Inr (0, 0),
        get_route_outcome = \<lambda>tr s e.
          Inr \<lparr>geojson = ''line'', distance = 20, duration = fl (11 / 40),
               route_fuel_locations = []\<rparr>\<rparr>
       0 ''A'' ''B'' ''C'' []))) = 0"
  "res_daily_logs (projr (fst (simulate (projr (TripSimulator_init (JStr ''key'') JNull 0))
       \<lparr>geocode_outcome = \<lambda>tr ad. Inr (0, 0),
        get_route_outcome = \<lambda>tr s e.
          Inr \<lparr>geojson = ''line'', distance = 20, duration = fl (11 / 40),
               route_fuel_locations = []\<rparr>\<rparr>
       0 ''A'' ''B'' ''C'' []))) = [lg] \<Longrightarrow> total_driving lg = fadd (fl (11 / 40)) (fl (11 / 40))"
proof -
  have nr: "\<not> remaining_cycle (projr (TripSimulator_init (JStr ''key'') JNull 0)) < 10"
    by (simp add: TripSimulator_init_def)
  show "res_fuel_stops (projr (fst (simulate (projr (TripSimulator_init (JStr ''key'') JNull 0))
       \<lparr>geocode_outcome = \<lambda>tr ad. Inr (0, 0),
        get_route_outcome = \<lambda>tr s e.
          Inr \<lparr>geojson = ''line'', distance = 1250, duration = 40,
               route_fuel_locations = []\<rparr>\<rparr>
       0 ''A'' ''B'' ''C'' []))) = 2"
    using nr by (simp add: simulate_def simulate_try_success remaining_cycle_examples)
  show "res_fuel_stops (projr (fst (simulate (projr (TripSimulator_init (JStr ''key'') JNull 0))
       \<lparr>geocode_outcome = \<lambda>tr ad. Inr (0, 0),
        get_route_outcome = \<lambda>tr s e.
          Inr \<lparr>geojson = ''line'', distance = 20, duration = fl (11 / 40),
               route_fuel_locations = []\<rparr>\<rparr>
       0 ''A'' ''B'' ''C'' []))) = 0"
    using nr by (simp add: simulate_def simulate_try_success remaining_cycle_examples)
  show "total_driving lg = fadd 40 40"
    if "res_daily_logs (projr (fst (simulate (projr (TripSimulator_init (JStr ''key'') JNull 0))
       \<lparr>geocode_outcome = \<lambda>tr ad. Inr (0, 0),
        get_route_outcome = \<lambda>tr s e.
          Inr \<lparr>geojson = ''line'', distance = 1250, duration = 40,
               route_fuel_locations = []\<rparr>\<rparr>
       0 ''A'' ''B'' ''C'' []))) = [lg]"
    using nr that by (auto simp: simulate_def simulate_try_success timeline_logs)
  show "total_driving lg = fadd (fl (11 / 40)) (fl (11 / 40))"
    if "res_daily_logs (projr (fst (simulate (projr (TripSimulator_init (JStr ''key'') JNull 0))
       \<lparr>geocode_outcome = \<lambda>tr ad. Inr (0, 0),
        get_route_outcome = \<lambda>tr s e.
          Inr \<lparr>geojson = ''line'', distance = 20, duration = fl (11 / 40),
               route_fuel_locations = []\<rparr>\<rparr>
       0 ''A'' ''B'' ''C'' []))) = [lg]"
    using nr that by (auto simp: simulate_def simulate_try_success timeline_logs)
qed

lemma parse_current_cycle_used_Inr:
  assumes "parse_current_cycle_used data = Inr n"
  shows "parse_current_cycle_used (data(''current_cycle_used'' \<mapsto> JInt n)) = Inr n"
  by (simp add: parse_current_cycle_used_def)

lemma missing_field_required_upd:
  "missing_field required_fields (data(''current_cycle_used'' \<mapsto> v)) =
   missing_field required_fields data"
  by (simp add: required_fields_def)

lemma data_lookup_upd:
  "data_item (data(''current_cycle_used'' \<mapsto> v)) ''current_location'' =
     data_item data ''current_location''"
  "data_item (data(''current_cycle_used'' \<mapsto> v)) ''pickup_location'' =
     data_item data ''pickup_location''"
  "data_item (data(''current_cycle_used'' \<mapsto> v)) ''dropoff_location'' =
     data_item data ''dropoff_location''"
  "data_get (data(''current_cycle_used'' \<mapsto> v)) ''geoapify_token'' =
     data_get data ''geoapify_token''"
  by (simp_all add: data_item_def data_get_def)

lemma simulate_trip_run_upd:
  assumes "parse_current_cycle_used data = Inr n"
  shows "simulate_trip_run net env_token clock (data(''current_cycle_used'' \<mapsto> JInt n)) trace =
         simulate_trip_run net env_token clock data trace"
  unfolding simulate_trip_run_def parse_current_cycle_used_Inr[OF assms] assms data_lookup_upd ..

lemma py_int_str_examples:
  "py_int_str ''abc'' = None"
  "py_int_str '' 15 '' = Some 15"
  "py_int_str ''-1_000'' = Some (- 1000)"
  "py_int_str ''1__0'' = None"
  "py_int_str [] = None"
  "py_int_str [CHR 0x1C, CHR ''6'', CHR ''5''] = None"
  by (simp_all add: py_int_str_def strip_def is_space_def int_literal_def is_digit_def
        digit_val_def)

subsection \<open>Fuel-stop count\<close>

text \<open>
  C2. For every total distance \<open>d\<close>: up to and including 1000 miles the count is 0; above
  1000 miles it is \<open>ceil(d/1000) - 1\<close> (which is then at least 1); and the count is never
  negative.
\<close>

theorem calculate_fuel_stops_count:
  "(d \<le> 1000 \<longrightarrow> calculate_fuel_stops d = 0) \<and>
   (1000 < d \<longrightarrow> calculate_fuel_stops d = \<lceil>d / 1000\<rceil> - 1 \<and> 1 \<le> calculate_fuel_stops d) \<and>
   0 \<le> calculate_fuel_stops d"
proof -
  have above: "2 \<le> \<lceil>d / 1000\<rceil>" if "1000 < d"
  proof -
    from that have "1 < d / 1000" by simp
    then have "1 < \<lceil>d / 1000\<rceil>" by (simp add: less_ceiling_iff)
    then show ?thesis by simp
  qed
  show ?thesis
    using above by (auto simp: calculate_fuel_stops_def)
qed

theorem calculate_fuel_stops_count_witness:
  "calculate_fuel_stops 1000 = 0 \<and> calculate_fuel_stops 2500 = 2 \<and>
   0 \<le> calculate_fuel_stops 2500"
  using calculate_fuel_stops_count [of 1000] calculate_fuel_stops_count [of 2500]
  by simp

subsection \<open>The timeline\<close>

text \<open>
  C1, as stated, fails on the labels of the events: the two drive events carry the notes
  ``Driving to pickup location'' and ``Main route to destination''. ``Driving to pickup''
  and ``Route driving'' are the descriptions of the ELD log entries written beside them.
\<close>

theorem timeline_event_notes:
  "map enote
     (fst (simulate_trip_timeline (projr (TripSimulator_init (JStr ''key'') JNull 0)) 15 2500 2 0)) =
     [''Driving to pickup location'', ''Loading at pickup location'',
      ''Main route to destination'', ''Unloading at destination'']"
  unfolding timeline_events
  by (simp add: TripSimulator_init_def)

text \<open>
  C1, amended. For a simulator built by the constructor and every number of driving hours
  \<open>h\<close>, the timeline is: a drive event of \<open>min h 2\<close> hours with the note ``Driving to pickup
  location'' (log entry ``Driving to pickup''), a pickup event of 1 hour, a drive event of
  the remaining \<open>h - min h 2\<close> hours with the note ``Main route to destination'' (log entry
  ``Route driving'') exactly when hours remain after the first segment, and a dropoff
  event of 1 hour; and there is exactly one daily log.
\<close>

theorem timeline_event_sequence:
  assumes "TripSimulator_init tok env used = Inr self"
  shows "map (\<lambda>e. (etype e, ehours e, enote e)) (fst (simulate_trip_timeline self h d n clock)) =
           (if 0 < h - min h 2
            then [(''drive'', min h 2, ''Driving to pickup location''),
                  (''pickup'', 1, ''Loading at pickup location''),
                  (''drive'', h - min h 2, ''Main route to destination''),
                  (''dropoff'', 1, ''Unloading at destination'')]
            else [(''drive'', min h 2, ''Driving to pickup location''),
                  (''pickup'', 1, ''Loading at pickup location''),
                  (''dropoff'', 1, ''Unloading at destination'')]) \<and>
         (\<exists>lg. snd (simulate_trip_timeline self h d n clock) = [lg] \<and>
            map (\<lambda>e. (status e, hours e, description e)) (entries lg) =
              (if 0 < h - min h 2
               then [(''D'', min h 2, ''Driving to pickup''), (''ON'', 1, ''Loading''),
                     (''D'', h - min h 2, ''Route driving''), (''ON'', 1, ''Unloading'')]
               else [(''D'', min h 2, ''Driving to pickup''), (''ON'', 1, ''Loading''),
                     (''ON'', 1, ''Unloading'')])) \<and>
         length (snd (simulate_trip_timeline self h d n clock)) = 1"
  unfolding remain_iff timeline_events timeline_logs
  by (simp add: init_fields(1,2)[OF assms] create_eld_log_entry_fields)

theorem timeline_event_sequence_witness:
  "map (\<lambda>e. (etype e, ehours e, enote e))
     (fst (simulate_trip_timeline (projr (TripSimulator_init (JStr ''key'') JNull 0)) 15 2500 2 0)) =
     [(''drive'', 2, ''Driving to pickup location''),
      (''pickup'', 1, ''Loading at pickup location''),
      (''drive'', 13, ''Main route to destination''),
      (''dropoff'', 1, ''Unloading at destination'')] \<and>
   map (\<lambda>e. (etype e, ehours e, enote e))
     (fst (simulate_trip_timeline (projr (TripSimulator_init (JStr ''key'') JNull 0)) 1 500 0 0)) =
     [(''drive'', 1, ''Driving to pickup location''),
      (''pickup'', 1, ''Loading at pickup location''),
      (''dropoff'', 1, ''Unloading at destination'')] \<and>
   length (snd (simulate_trip_timeline (projr (TripSimulator_init (JStr ''key'') JNull 0))
     15 2500 2 0)) = 1"
proof -
  have i: "TripSimulator_init (JStr ''key'') JNull 0 =
             Inr (projr (TripSimulator_init (JStr ''key'') JNull 0))"
    by (simp add: TripSimulator_init_def)
  have a: "map (\<lambda>e. (etype e, ehours e, enote e))
     (fst (simulate_trip_timeline (projr (TripSimulator_init (JStr ''key'') JNull 0)) 15 2500 2 0)) =
     [(''drive'', 2, ''Driving to pickup location''),
      (''pickup'', 1, ''Loading at pickup location''),
      (''drive'', 13, ''Main route to destination''),
      (''dropoff'', 1, ''Unloading at destination'')]"
    using timeline_event_sequence [OF i, of 15 2500 2 0] by simp
  have b: "map (\<lambda>e. (etype e, ehours e, enote e))
     (fst (simulate_trip_timeline (projr (TripSimulator_init (JStr ''key'') JNull 0)) 1 500 0 0)) =
     [(''drive'', 1, ''Driving to pickup location''),
      (''pickup'', 1, ''Loading at pickup location''),
      (''dropoff'', 1, ''Unloading at destination'')]"
    using timeline_event_sequence [OF i, of 1 500 0 0] by simp
  have c: "length (snd (simulate_trip_timeline (projr (TripSimulator_init (JStr ''key'') JNull 0))
     15 2500 2 0)) = 1"
    using timeline_event_sequence [OF i, of 15 2500 2 0] by (elim conjE)
  from a b c show ?thesis by (intro conjI)
qed



text \<open>
  C7, as stated, fails when there are no driving hours: the first drive event is emitted
  with \<open>min 0 2 = 0\<close> hours.
\<close>

theorem timeline_zero_duration_event:
  "map (\<lambda>e. (etype e, ehours e))
     (fst (simulate_trip_timeline (projr (TripSimulator_init (JStr ''key'') JNull 0)) 0 0 0 0)) =
     [(''drive'', 0), (''pickup'', 1), (''dropoff'', 1)]"
  unfolding timeline_events
  by (simp add: TripSimulator_init_def)

text \<open>
  C7, amended. When the driving hours are strictly positive every event has a strictly
  positive duration, and for \<open>h \<le> 2\<close> the main drive is left out rather than emitted with
  zero length; when \<open>h = 0\<close> the first drive event is emitted with duration 0.
\<close>

theorem timeline_positive_durations:
  assumes "TripSimulator_init tok env used = Inr self"
  shows "(0 < h \<longrightarrow> list_all (\<lambda>e. 0 < ehours e) (fst (simulate_trip_timeline self h d n clock))) \<and>
         (h \<le> 2 \<longrightarrow> map etype (fst (simulate_trip_timeline self h d n clock)) =
                       [''drive'', ''pickup'', ''dropoff'']) \<and>
         (h = 0 \<longrightarrow> map ehours (fst (simulate_trip_timeline self h d n clock)) = [0, 1, 1])"
  unfolding timeline_events
  by (simp add: init_fields(1,2)[OF assms])

theorem timeline_positive_durations_witness:
  "list_all (\<lambda>e. 0 < ehours e)
     (fst (simulate_trip_timeline (projr (TripSimulator_init (JStr ''key'') JNull 0)) 1 500 0 0)) \<and>
   map etype
     (fst (simulate_trip_timeline (projr (TripSimulator_init (JStr ''key'') JNull 0)) 1 500 0 0)) =
     [''drive'', ''pickup'', ''dropoff''] \<and>
   map ehours
     (fst (simulate_trip_timeline (projr (TripSimulator_init (JStr ''key'') JNull 0)) 0 0 0 0)) =
     [0, 1, 1]"
proof -
  have i: "TripSimulator_init (JStr ''key'') JNull 0 =
             Inr (projr (TripSimulator_init (JStr ''key'') JNull 0))"
    by (simp add: TripSimulator_init_def)
  have a: "list_all (\<lambda>e. 0 < ehours e)
     (fst (simulate_trip_timeline (projr (TripSimulator_init (JStr ''key'') JNull 0)) 1 500 0 0))"
    using timeline_positive_durations [OF i, of 1 500 0 0] by simp
  have b: "map etype
     (fst (simulate_trip_timeline (projr (TripSimulator_init (JStr ''key'') JNull 0)) 1 500 0 0)) =
     [''drive'', ''pickup'', ''dropoff'']"
    using timeline_positive_durations [OF i, of 1 500 0 0] by simp
  have c: "map ehours
     (fst (simulate_trip_timeline (projr (TripSimulator_init (JStr ''key'') JNull 0)) 0 0 0 0)) =
     [0, 1, 1]"
    using timeline_positive_durations [OF i, of 0 0 0 0] by simp
  from a b c show ?thesis by (intro conjI)
qed

text \<open>
  C8. The timeline depends on its arguments and the clock reading only: two simulators
  built by the constructor, whatever their token and used cycle hours, give the same
  events and daily logs for the same arguments and the same reading of the clock.
\<close>

theorem timeline_pure:
  assumes "TripSimulator_init tok1 env1 used1 = Inr s1"
      and "TripSimulator_init tok2 env2 used2 = Inr s2"
  shows "simulate_trip_timeline s1 h d n clock = simulate_trip_timeline s2 h d n clock"
proof (rule timeline_self_fields)
  show "pickup_time s1 = pickup_time s2"
    by (simp add: init_fields(1)[OF assms(1)] init_fields(1)[OF assms(2)])
  show "dropoff_time s1 = dropoff_time s2"
    by (simp add: init_fields(2)[OF assms(1)] init_fields(2)[OF assms(2)])
qed

theorem timeline_pure_witness:
  "simulate_trip_timeline (projr (TripSimulator_init (JStr ''key'') JNull 0)) 15 2500 2 0 =
   simulate_trip_timeline (projr (TripSimulator_init JNull (JStr ''env'') 30)) 15 2500 2 0"
proof -
  have i: "TripSimulator_init (JStr ''key'') JNull 0 =
             Inr (projr (TripSimulator_init (JStr ''key'') JNull 0))"
    by (simp add: TripSimulator_init_def)
  have j: "TripSimulator_init JNull (JStr ''env'') 30 =
             Inr (projr (TripSimulator_init JNull (JStr ''env'') 30))"
    by (simp add: TripSimulator_init_def)
  show ?thesis
    by (rule timeline_pure [OF i j])
qed

subsection \<open>Fuel locations\<close>

text \<open>
  C3, as stated, fails for pickup and dropoff coordinates that are distinct but closer
  than the rounding step: the stop between latitude 0 and latitude 0.0000001 is emitted
  at latitude 0, on the pickup itself, not strictly between the two.
\<close>

theorem fuel_locations_rounded_onto_pickup:
  "simulate_fuel_locations 1 (0, 0) (1 / 10000000, 0) =
     [\<lparr>lat = 0, lng = 0, name = ''Fuel Stop 1'', distance_from_start = 1000\<rparr>]"
proof -
  have f: "int_truediv 1 2 = 1 / 2"
    by (simp add: int_truediv_def fl_eval)
  have a: "py_round (fadd 0 (fmul (1 / 2) (fsub (1 / 10000000) 0))) 6 = 0"
    by (simp add: py_round_def fadd_def fsub_def fmul_def fl_eval)
  have b: "py_round (fadd 0 (fmul (1 / 2) (fsub 0 0))) 6 = 0"
    by (simp add: py_round_def fadd_def fsub_def fmul_def fl_eval)
  show ?thesis
    by (simp add: simulate_fuel_locations_def py_range_def fuel_location_at_def
          py_round_int_def str_int_1 f a b)
qed

text \<open>
  C3, amended. For every fuel-stop count \<open>n \<ge> 1\<close> there are \<open>n\<close> stops; stop \<open>i\<close> (for
  \<open>i\<close> in \<open>1..n\<close>) is named ``Fuel Stop i'', is \<open>i * 1000\<close> miles from the start, and has as
  coordinates the linear interpolation of the pickup and dropoff coordinates at the
  fraction \<open>i / (n + 1)\<close>, on each axis separately, computed in binary floating point and
  rounded to 6 decimals: each emitted coordinate is the float nearest to a number of 6
  decimals that is within half a unit of the sixth decimal of the interpolated float. The
  fraction used is the float nearest to \<open>i / (n + 1)\<close>, and \<open>i / (n + 1)\<close> is strictly
  between 0 and 1. The stops are in strictly increasing order of distance from the start.
  Between the latitudes 27.117513 and 33.558696 the one stop is emitted at 30.338105.
\<close>

theorem fuel_locations_interpolated:
  assumes "1 \<le> n"
  shows "length (simulate_fuel_locations n p d) = nat n \<and>
         (\<forall>i. 1 \<le> i \<and> i \<le> n \<longrightarrow>
            name (simulate_fuel_locations n p d ! nat (i - 1)) = ''Fuel Stop '' @ str_int i \<and>
            distance_from_start (simulate_fuel_locations n p d ! nat (i - 1)) = i * 1000 \<and>
            lat (simulate_fuel_locations n p d ! nat (i - 1)) =
              py_round (fadd (fst p) (fmul (int_truediv i (n + 1)) (fsub (fst d) (fst p)))) 6 \<and>
            lng (simulate_fuel_locations n p d ! nat (i - 1)) =
              py_round (fadd (snd p) (fmul (int_truediv i (n + 1)) (fsub (snd d) (snd p)))) 6 \<and>
            (\<exists>k::int. lat (simulate_fuel_locations n p d ! nat (i - 1)) = fl (of_int k / 10 ^ 6) \<and>
               \<bar>of_int k / 10 ^ 6 - fadd (fst p) (fmul (int_truediv i (n + 1)) (fsub (fst d) (fst p)))\<bar>
                 \<le> 1 / (2 * 10 ^ 6)) \<and>
            (\<exists>k::int. lng (simulate_fuel_locations n p d ! nat (i - 1)) = fl (of_int k / 10 ^ 6) \<and>
               \<bar>of_int k / 10 ^ 6 - fadd (snd p) (fmul (int_truediv i (n + 1)) (fsub (snd d) (snd p)))\<bar>
                 \<le> 1 / (2 * 10 ^ 6)) \<and>
            int_truediv i (n + 1) = fl (of_int i / of_int (n + 1)) \<and>
            0 < (of_int i / of_int (n + 1) :: real) \<and> (of_int i / of_int (n + 1) :: real) < 1) \<and>
         sorted_wrt (<) (map distance_from_start (simulate_fuel_locations n p d))"
proof (intro conjI allI impI)
  have n: "0 < n" using assms by simp
  show "length (simulate_fuel_locations n p d) = nat n"
    by (simp add: simulate_fuel_locations_map[OF n])
  show "sorted_wrt (<) (map distance_from_start (simulate_fuel_locations n p d))"
    using distances_sorted[of n p d "nat n"]
    by (simp add: simulate_fuel_locations_map[OF n] comp_def)
next
  fix i assume "1 \<le> i \<and> i \<le> n"
  then have i: "1 \<le> i" "i \<le> n" by simp_all
  note nth = simulate_fuel_locations_nth[OF i, of p d]
  show "name (simulate_fuel_locations n p d ! nat (i - 1)) = ''Fuel Stop '' @ str_int i"
    by (simp add: nth fuel_location_at_fields)
  show "distance_from_start (simulate_fuel_locations n p d ! nat (i - 1)) = i * 1000"
    by (simp add: nth fuel_location_at_fields)
  show la: "lat (simulate_fuel_locations n p d ! nat (i - 1)) =
          py_round (fadd (fst p) (fmul (int_truediv i (n + 1)) (fsub (fst d) (fst p)))) 6"
    by (simp add: nth fuel_location_at_fields)
  show ln: "lng (simulate_fuel_locations n p d ! nat (i - 1)) =
          py_round (fadd (snd p) (fmul (int_truediv i (n + 1)) (fsub (snd d) (snd p)))) 6"
    by (simp add: nth fuel_location_at_fields)
  show "\<exists>k::int. lat (simulate_fuel_locations n p d ! nat (i - 1)) = fl (of_int k / 10 ^ 6) \<and>
               \<bar>of_int k / 10 ^ 6 - fadd (fst p) (fmul (int_truediv i (n + 1)) (fsub (fst d) (fst p)))\<bar>
                 \<le> 1 / (2 * 10 ^ 6)"
    unfolding la by (rule py_round_close)
  show "\<exists>k::int. lng (simulate_fuel_locations n p d ! nat (i - 1)) = fl (of_int k / 10 ^ 6) \<and>
               \<bar>of_int k / 10 ^ 6 - fadd (snd p) (fmul (int_truediv i (n + 1)) (fsub (snd d) (snd p)))\<bar>
                 \<le> 1 / (2 * 10 ^ 6)"
    unfolding ln by (rule py_round_close)
  show "int_truediv i (n + 1) = fl (of_int i / of_int (n + 1))"
    by (simp add: int_truediv_def)
  show "0 < (of_int i / of_int (n + 1) :: real)"
    by (rule fraction_bounds(1)[OF i])
  show "(of_int i / of_int (n + 1) :: real) < 1"
    by (rule fraction_bounds(2)[OF i])
qed

theorem fuel_locations_interpolated_witness:
  "length (simulate_fuel_locations 2 (40, -100) (43, -70)) = 2 \<and>
   name (simulate_fuel_locations 2 (40, -100) (43, -70) ! 0) = ''Fuel Stop '' @ str_int 1 \<and>
   distance_from_start (simulate_fuel_locations 2 (40, -100) (43, -70) ! 0) = 1000 \<and>
   lat (simulate_fuel_locations 2 (40, -100) (43, -70) ! 0) = 41 \<and>
   lng (simulate_fuel_locations 2 (40, -100) (43, -70) ! 0) = -90 \<and>
   lat (simulate_fuel_locations 2 (40, -100) (43, -70) ! 1) = 42 \<and>
   lng (simulate_fuel_locations 2 (40, -100) (43, -70) ! 1) = -80 \<and>
   lat (simulate_fuel_locations 1 (fl (27117513 / 1000000), 0) (fl (33558696 / 1000000), 0) ! 0) =
     fl (30338105 / 1000000)"
proof -
  have h: "1 \<le> (2::int)" by simp
  note T = fuel_locations_interpolated [OF h, of "(40, -100)" "(43, -70)"]
  have len: "length (simulate_fuel_locations 2 (40, -100) (43, -70)) = 2"
    using T by simp
  note T1 = T [THEN conjunct2, THEN conjunct1, rule_format, of 1]
  note T2 = T [THEN conjunct2, THEN conjunct1, rule_format, of 2]
  have n1: "name (simulate_fuel_locations 2 (40, -100) (43, -70) ! 0) = ''Fuel Stop '' @ str_int 1"
    using T1 by simp
  have d1: "distance_from_start (simulate_fuel_locations 2 (40, -100) (43, -70) ! 0) = 1000"
    using T1 by simp
  have la1: "lat (simulate_fuel_locations 2 (40, -100) (43, -70) ! 0) = 41"
    using T1 [THEN conjunct2, THEN conjunct2, THEN conjunct1]
    by (simp add: py_round_def fadd_def fsub_def fmul_def int_truediv_def fl_eval)
  have ln1: "lng (simulate_fuel_locations 2 (40, -100) (43, -70) ! 0) = -90"
    using T1 [THEN conjunct2, THEN conjunct2, THEN conjunct2, THEN conjunct1]
    by (simp add: py_round_def fadd_def fsub_def fmul_def int_truediv_def fl_eval)
  have la2: "lat (simulate_fuel_locations 2 (40, -100) (43, -70) ! 1) = 42"
    using T2 [THEN conjunct2, THEN conjunct2, THEN conjunct1]
    by (simp add: py_round_def fadd_def fsub_def fmul_def int_truediv_def fl_eval)
  have ln2: "lng (simulate_fuel_locations 2 (40, -100) (43, -70) ! 1) = -80"
    using T2 [THEN conjunct2, THEN conjunct2, THEN conjunct2, THEN conjunct1]
    by (simp add: py_round_def fadd_def fsub_def fmul_def int_truediv_def fl_eval)
  have h1: "1 \<le> (1::int)" by simp
  have a: "fl (27117513 / 1000000) = 7632901340125911 / 281474976710656"
    by (simp add: fl_eval)
  have b: "fl (33558696 / 1000000) = 590370823439999 / 17592186044416"
    by (simp add: fl_eval)
  have c: "fl (30338105 / 1000000) = 2134854349580109 / 70368744177664"
    by (simp add: fl_eval)
  have r: "py_round (fadd (7632901340125911 / 281474976710656)
             (fmul (int_truediv 1 2)
                (fsub (590370823439999 / 17592186044416)
                      (7632901340125911 / 281474976710656)))) 6 =
           2134854349580109 / 70368744177664"
    by (simp add: py_round_def fadd_def fsub_def fmul_def int_truediv_def fl_eval)
  have la3: "lat (simulate_fuel_locations 1 (fl (27117513 / 1000000), 0) (fl (33558696 / 1000000), 0) ! 0) =
     fl (30338105 / 1000000)"
    unfolding a b c
    using fuel_locations_interpolated [OF h1,
        of "(fl (27117513 / 1000000), 0)" "(fl (33558696 / 1000000), 0)",
        THEN conjunct2, THEN conjunct1, rule_format, of 1,
        THEN conjunct2, THEN conjunct2, THEN conjunct1, unfolded a b]
    by (simp add: r)
  from len n1 d1 la1 ln1 la2 ln2 la3 show ?thesis by (intro conjI)
qed

subsection \<open>The orchestrator\<close>

text \<open>
  C4. When the remaining cycle hours of the simulator are below 10, \<open>simulate\<close> raises the
  \<open>ValueError\<close> that the view reports as a validation error, and the trace of network
  requests is returned unchanged: no geocoding or routing call has been made, whatever
  the addresses and whatever the network would have answered.
\<close>

theorem simulate_insufficient_cycle:
  assumes "remaining_cycle self < 10"
  shows "simulate self net clock current_addr pickup_addr dropoff_addr trace =
           (Inl (ValueError ''Insufficient cycle hours remaining (minimum 10 required)''), trace)"
  using assms by (simp add: simulate_def)

theorem simulate_insufficient_cycle_witness:
  "simulate (projr (TripSimulator_init (JStr ''key'') JNull 61))
       \<lparr>geocode_outcome = \<lambda>tr ad. Inr (0, 0),
        get_route_outcome = \<lambda>tr s e.
          Inr \<lparr>geojson = ''line'', distance = 1250, duration = 40,
               route_fuel_locations = []\<rparr>\<rparr>
       0 ''A'' ''B'' ''C'' [] =
     (Inl (ValueError ''Insufficient cycle hours remaining (minimum 10 required)''), [])"
proof -
  have h: "remaining_cycle (projr (TripSimulator_init (JStr ''key'') JNull 61)) < 10"
    by (simp add: TripSimulator_init_def)
  show ?thesis
    by (rule simulate_insufficient_cycle [OF h])
qed

text \<open>
  C5. Every successful simulation made its three geocoding calls and its two routing
  calls, and with \<open>rp\<close> and \<open>mr\<close> the routes returned, the result's \<open>fuel_stops\<close> is the
  fuel-stop count of the total distance and its \<open>remaining_cycle_hours\<close> is the remaining
  cycle hours before the simulation, minus the total driving hours, minus 1 (pickup),
  minus 1 (dropoff), minus half an hour per fuel stop, each operation in floating point,
  rounded to 1 decimal: it is the float of a number of tenths \<open>k / 10\<close> that lies within
  \<open>1 / 20\<close> of the unrounded value. Nothing clamps the value: in the first example run it
  is \<open>-13\<close>. In the second example run the unrounded value is the float just above
  \<open>67.45\<close>, and the result is \<open>67.5\<close>.
\<close>

theorem remaining_cycle_hours_after:
  assumes "TripSimulator_init tok env used = Inr self"
    and "simulate self net clock a b c trace = (Inr r, trace')"
  shows "\<exists>cc pc dc rp mr.
           geocode_outcome net trace a = Inr cc \<and>
           geocode_outcome net (trace @ [GeocodeRequest a]) b = Inr pc \<and>
           geocode_outcome net (trace @ [GeocodeRequest a, GeocodeRequest b]) c = Inr dc \<and>
           get_route_outcome net (trace @ [GeocodeRequest a, GeocodeRequest b, GeocodeRequest c])
             cc pc = Inr rp \<and>
           get_route_outcome net
             (trace @ [GeocodeRequest a, GeocodeRequest b, GeocodeRequest c, RoutingRequest cc pc])
             pc dc = Inr mr \<and>
           res_fuel_stops r = calculate_fuel_stops (fadd (distance rp) (distance mr)) \<and>
           res_remaining_cycle_hours r =
             py_round (fsub (fsub (fsub (fsub (float_of_int (remaining_cycle self)) (fadd (duration rp) (duration mr))) 1) 1)
                        (fmul (float_of_int (res_fuel_stops r)) (1 / 2))) 1 \<and>
           (\<exists>k::int. res_remaining_cycle_hours r = fl (of_int k / 10) \<and>
              \<bar>of_int k / 10 -
                 (fsub (fsub (fsub (fsub (float_of_int (remaining_cycle self)) (fadd (duration rp) (duration mr))) 1) 1)
                        (fmul (float_of_int (res_fuel_stops r)) (1 / 2)))\<bar> \<le> 1 / 20)"
proof -
  note st = simulate_Inr(2)[OF assms(2)]
  from simulate_try_inversion[OF st] obtain cc pc dc rp mr where
    o: "geocode_outcome net trace a = Inr cc"
       "geocode_outcome net (trace @ [GeocodeRequest a]) b = Inr pc"
       "geocode_outcome net (trace @ [GeocodeRequest a, GeocodeRequest b]) c = Inr dc"
       "get_route_outcome net (trace @ [GeocodeRequest a, GeocodeRequest b, GeocodeRequest c])
             cc pc = Inr rp"
       "get_route_outcome net
             (trace @ [GeocodeRequest a, GeocodeRequest b, GeocodeRequest c, RoutingRequest cc pc])
             pc dc = Inr mr"
    by (elim exE conjE)
  from st simulate_try_success[OF o, of self clock]
  have fs: "res_fuel_stops r = calculate_fuel_stops (fadd (distance rp) (distance mr))"
    and rc: "res_remaining_cycle_hours r =
             py_round (fsub (fsub (fsub (fsub (float_of_int (remaining_cycle self)) (fadd (duration rp) (duration mr))) (float_of_int (pickup_time self))) (float_of_int (dropoff_time self)))
                        (fmul (float_of_int (calculate_fuel_stops (fadd (distance rp) (distance mr)))) (fuel_time self))) 1"
    by auto
  have rc': "res_remaining_cycle_hours r =
             py_round (fsub (fsub (fsub (fsub (float_of_int (remaining_cycle self)) (fadd (duration rp) (duration mr))) 1) 1)
                        (fmul (float_of_int (res_fuel_stops r)) (1 / 2))) 1"
    unfolding rc fs by (simp add: init_fields(1,2,3)[OF assms(1)] float_of_int_small)
  have pin: "\<exists>k::int. res_remaining_cycle_hours r = fl (of_int k / 10) \<and>
              \<bar>of_int k / 10 -
                 (fsub (fsub (fsub (fsub (float_of_int (remaining_cycle self)) (fadd (duration rp) (duration mr))) 1) 1)
                        (fmul (float_of_int (res_fuel_stops r)) (1 / 2)))\<bar> \<le> 1 / 20"
    unfolding rc' using py_round_close [where n = 1] by simp
  from o fs rc' pin show ?thesis by blast
qed

theorem remaining_cycle_hours_after_witness:
  "res_fuel_stops (projr (fst (simulate (projr (TripSimulator_init (JStr ''key'') JNull 0))
       \<lparr>geocode_outcome = \<lambda>tr ad. Inr (0, 0),
        get_route_outcome = \<lambda>tr s e.
          Inr \<lparr>geojson = ''line'', distance = 1250, duration = 40,
               route_fuel_locations = []\<rparr>\<rparr>
       0 ''A'' ''B'' ''C'' []))) = 2 \<and>
   res_remaining_cycle_hours (projr (fst (simulate (projr (TripSimulator_init (JStr ''key'') JNull 0))
       \<lparr>geocode_outcome = \<lambda>tr ad. Inr (0, 0),
        get_route_outcome = \<lambda>tr s e.
          Inr \<lparr>geojson = ''line'', distance = 1250, duration = 40,
               route_fuel_locations = []\<rparr>\<rparr>
       0 ''A'' ''B'' ''C'' []))) = - 13 \<and>
   res_fuel_stops (projr (fst (simulate (projr (TripSimulator_init (JStr ''key'') JNull 0))
       \<lparr>geocode_outcome = \<lambda>tr ad. Inr (0, 0),
        get_route_outcome = \<lambda>tr s e.
          Inr \<lparr>geojson = ''line'', distance = 20, duration = fl (11 / 40),
               route_fuel_locations = []\<rparr>\<rparr>
       0 ''A'' ''B'' ''C'' []))) = 0 \<and>
   res_remaining_cycle_hours (projr (fst (simulate (projr (TripSimulator_init (JStr ''key'') JNull 0))
       \<lparr>geocode_outcome = \<lambda>tr ad. Inr (0, 0),
        get_route_outcome = \<lambda>tr s e.
          Inr \<lparr>geojson = ''line'', distance = 20, duration = fl (11 / 40),
               route_fuel_locations = []\<rparr>\<rparr>
       0 ''A'' ''B'' ''C'' []))) = 135 / 2"
proof -
  have i: "TripSimulator_init (JStr ''key'') JNull 0 = Inr (projr (TripSimulator_init (JStr ''key'') JNull 0))"
    by (simp add: TripSimulator_init_def)
  have rc: "remaining_cycle (projr (TripSimulator_init (JStr ''key'') JNull 0)) = 70"
    by (simp add: TripSimulator_init_def)
  have a: "res_fuel_stops (projr (fst (simulate (projr (TripSimulator_init (JStr ''key'') JNull 0))
       \<lparr>geocode_outcome = \<lambda>tr ad. Inr (0, 0),
        get_route_outcome = \<lambda>tr s e.
          Inr \<lparr>geojson = ''line'', distance = 1250, duration = 40,
               route_fuel_locations = []\<rparr>\<rparr>
       0 ''A'' ''B'' ''C'' []))) = 2 \<and>
   res_remaining_cycle_hours (projr (fst (simulate (projr (TripSimulator_init (JStr ''key'') JNull 0))
       \<lparr>geocode_outcome = \<lambda>tr ad. Inr (0, 0),
        get_route_outcome = \<lambda>tr s e.
          Inr \<lparr>geojson = ''line'', distance = 1250, duration = 40,
               route_fuel_locations = []\<rparr>\<rparr>
       0 ''A'' ''B'' ''C'' []))) = - 13"
    using remaining_cycle_hours_after [OF i example_run]
    by (auto simp: rc remaining_cycle_examples simp del: One_nat_def)
  have b: "res_fuel_stops (projr (fst (simulate (projr (TripSimulator_init (JStr ''key'') JNull 0))
       \<lparr>geocode_outcome = \<lambda>tr ad. Inr (0, 0),
        get_route_outcome = \<lambda>tr s e.
          Inr \<lparr>geojson = ''line'', distance = 20, duration = fl (11 / 40),
               route_fuel_locations = []\<rparr>\<rparr>
       0 ''A'' ''B'' ''C'' []))) = 0 \<and>
   res_remaining_cycle_hours (projr (fst (simulate (projr (TripSimulator_init (JStr ''key'') JNull 0))
       \<lparr>geocode_outcome = \<lambda>tr ad. Inr (0, 0),
        get_route_outcome = \<lambda>tr s e.
          Inr \<lparr>geojson = ''line'', distance = 20, duration = fl (11 / 40),
               route_fuel_locations = []\<rparr>\<rparr>
       0 ''A'' ''B'' ''C'' []))) = 135 / 2"
    using remaining_cycle_hours_after [OF i example_run_short]
    by (auto simp: rc remaining_cycle_examples simp del: One_nat_def)
  from a b show ?thesis by simp
qed

text \<open>
  C10. The constructor sets the remaining cycle hours to \<open>70 - current_cycle_used\<close>; so
  \<open>simulate\<close> refuses (with no network call) exactly when \<open>current_cycle_used > 60\<close>, and
  the \<open>remaining_cycle_hours\<close> of every result is computed from the base of 70 hours: it
  is the float of a number of tenths \<open>k / 10\<close> within \<open>1 / 20\<close> of what is left of
  \<open>70 - current_cycle_used\<close> after the driving hours of the daily log, the two hours of
  pickup and dropoff, and half an hour per fuel stop.
\<close>

theorem seventy_hour_cycle:
  assumes "TripSimulator_init tok env used = Inr self"
  shows "remaining_cycle self = 70 - used \<and>
         (simulate self net clock a b c trace =
            (Inl (ValueError ''Insufficient cycle hours remaining (minimum 10 required)''), trace)
          \<longleftrightarrow> 60 < used) \<and>
         (\<forall>r trace'. simulate self net clock a b c trace = (Inr r, trace') \<longrightarrow>
            (\<exists>lg k. res_daily_logs r = [lg] \<and>
               res_remaining_cycle_hours r = fl (of_int k / 10) \<and>
               \<bar>of_int k / 10 -
                  (fsub (fsub (fsub (fsub (float_of_int (70 - used)) (total_driving lg)) 1) 1)
                        (fmul (float_of_int (res_fuel_stops r)) (1 / 2)))\<bar> \<le> 1 / 20))"
proof (intro conjI allI impI)
  show rem: "remaining_cycle self = 70 - used"
    by (rule init_fields(4)[OF assms])
  show "simulate self net clock a b c trace =
            (Inl (ValueError ''Insufficient cycle hours remaining (minimum 10 required)''), trace)
          \<longleftrightarrow> 60 < used"
  proof
    assume "simulate self net clock a b c trace =
            (Inl (ValueError ''Insufficient cycle hours remaining (minimum 10 required)''), trace)"
    then have "fst (simulate self net clock a b c trace) =
            Inl (ValueError ''Insufficient cycle hours remaining (minimum 10 required)'')"
      by simp
    with simulate_not_refused[of self net clock a b c trace]
    have "remaining_cycle self < 10" by blast
    with rem show "60 < used" by simp
  next
    assume "60 < used"
    with rem have "remaining_cycle self < 10" by simp
    then show "simulate self net clock a b c trace =
            (Inl (ValueError ''Insufficient cycle hours remaining (minimum 10 required)''), trace)"
      by (rule simulate_refused)
  qed
next
  fix r trace'
  assume "simulate self net clock a b c trace = (Inr r, trace')"
  from simulate_try_result[OF simulate_Inr(2)[OF this]]
  obtain lg where lg: "res_daily_logs r = [lg]"
    and rc: "res_remaining_cycle_hours r =
             py_round (fsub (fsub (fsub (fsub (float_of_int (remaining_cycle self)) (total_driving lg)) (float_of_int (pickup_time self))) (float_of_int (dropoff_time self)))
                        (fmul (float_of_int (res_fuel_stops r)) (fuel_time self))) 1"
    by (elim exE conjE)
  have rc': "res_remaining_cycle_hours r =
                 py_round (fsub (fsub (fsub (fsub (float_of_int (70 - used)) (total_driving lg)) 1) 1)
                        (fmul (float_of_int (res_fuel_stops r)) (1 / 2))) 1"
    unfolding rc by (simp add: init_fields[OF assms] float_of_int_small)
  have "\<exists>k::int. res_remaining_cycle_hours r = fl (of_int k / 10) \<and>
               \<bar>of_int k / 10 -
                  (fsub (fsub (fsub (fsub (float_of_int (70 - used)) (total_driving lg)) 1) 1)
                        (fmul (float_of_int (res_fuel_stops r)) (1 / 2)))\<bar> \<le> 1 / 20"
    unfolding rc' using py_round_close [where n = 1] by simp
  with lg show "\<exists>lg k. res_daily_logs r = [lg] \<and>
               res_remaining_cycle_hours r = fl (of_int k / 10) \<and>
               \<bar>of_int k / 10 -
                  (fsub (fsub (fsub (fsub (float_of_int (70 - used)) (total_driving lg)) 1) 1)
                        (fmul (float_of_int (res_fuel_stops r)) (1 / 2)))\<bar> \<le> 1 / 20"
    by blast
qed

theorem seventy_hour_cycle_witness:
  "remaining_cycle (projr (TripSimulator_init (JStr ''key'') JNull 0)) = 70 \<and>
   simulate (projr (TripSimulator_init (JStr ''key'') JNull 61))
       \<lparr>geocode_outcome = \<lambda>tr ad. Inr (0, 0),
        get_route_outcome = \<lambda>tr s e.
          Inr \<lparr>geojson = ''line'', distance = 1250, duration = 40,
               route_fuel_locations = []\<rparr>\<rparr>
       0 ''A'' ''B'' ''C'' [] =
     (Inl (ValueError ''Insufficient cycle hours remaining (minimum 10 required)''), []) \<and>
   res_remaining_cycle_hours (projr (fst (simulate (projr (TripSimulator_init (JStr ''key'') JNull 0))
       \<lparr>geocode_outcome = \<lambda>tr ad. Inr (0, 0),
        get_route_outcome = \<lambda>tr s e.
          Inr \<lparr>geojson = ''line'', distance = 1250, duration = 40,
               route_fuel_locations = []\<rparr>\<rparr>
       0 ''A'' ''B'' ''C'' []))) = - 13 \<and>
   res_remaining_cycle_hours (projr (fst (simulate (projr (TripSimulator_init (JStr ''key'') JNull 0))
       \<lparr>geocode_outcome = \<lambda>tr ad. Inr (0, 0),
        get_route_outcome = \<lambda>tr s e.
          Inr \<lparr>geojson = ''line'', distance = 20, duration = fl (11 / 40),
               route_fuel_locations = []\<rparr>\<rparr>
       0 ''A'' ''B'' ''C'' []))) = 135 / 2"
proof -
  have i: "TripSimulator_init (JStr ''key'') JNull 0 = Inr (projr (TripSimulator_init (JStr ''key'') JNull 0))"
    by (simp add: TripSimulator_init_def)
  have j: "TripSimulator_init (JStr ''key'') JNull 61 = Inr (projr (TripSimulator_init (JStr ''key'') JNull 61))"
    by (simp add: TripSimulator_init_def)
  have a: "remaining_cycle (projr (TripSimulator_init (JStr ''key'') JNull 0)) = 70"
    using seventy_hour_cycle [OF i, THEN conjunct1] by simp
  have b: "simulate (projr (TripSimulator_init (JStr ''key'') JNull 61))
       \<lparr>geocode_outcome = \<lambda>tr ad. Inr (0, 0),
        get_route_outcome = \<lambda>tr s e.
          Inr \<lparr>geojson = ''line'', distance = 1250, duration = 40,
               route_fuel_locations = []\<rparr>\<rparr>
       0 ''A'' ''B'' ''C'' [] =
     (Inl (ValueError ''Insufficient cycle hours remaining (minimum 10 required)''), [])"
    by (simp add: seventy_hour_cycle [OF j, THEN conjunct2, THEN conjunct1])
  have c: "res_remaining_cycle_hours (projr (fst (simulate (projr (TripSimulator_init (JStr ''key'') JNull 0))
       \<lparr>geocode_outcome = \<lambda>tr ad. Inr (0, 0),
        get_route_outcome = \<lambda>tr s e.
          Inr \<lparr>geojson = ''line'', distance = 1250, duration = 40,
               route_fuel_locations = []\<rparr>\<rparr>
       0 ''A'' ''B'' ''C'' []))) = - 13"
  proof -
    from seventy_hour_cycle [OF i, THEN conjunct2, THEN conjunct2, rule_format, OF example_run]
    obtain lg k where lg: "res_daily_logs (projr (fst (simulate (projr (TripSimulator_init (JStr ''key'') JNull 0))
       \<lparr>geocode_outcome = \<lambda>tr ad. Inr (0, 0),
        get_route_outcome = \<lambda>tr s e.
          Inr \<lparr>geojson = ''line'', distance = 1250, duration = 40,
               route_fuel_locations = []\<rparr>\<rparr>
       0 ''A'' ''B'' ''C'' []))) = [lg]"
      and e: "res_remaining_cycle_hours (projr (fst (simulate (projr (TripSimulator_init (JStr ''key'') JNull 0))
       \<lparr>geocode_outcome = \<lambda>tr ad. Inr (0, 0),
        get_route_outcome = \<lambda>tr s e.
          Inr \<lparr>geojson = ''line'', distance = 1250, duration = 40,
               route_fuel_locations = []\<rparr>\<rparr>
       0 ''A'' ''B'' ''C'' []))) = fl (of_int k / 10)"
      and bnd: "\<bar>of_int k / 10 -
                  (fsub (fsub (fsub (fsub (float_of_int (70 - 0)) (total_driving lg)) 1) 1)
                        (fmul (float_of_int (res_fuel_stops (projr (fst (simulate (projr (TripSimulator_init (JStr ''key'') JNull 0))
       \<lparr>geocode_outcome = \<lambda>tr ad. Inr (0, 0),
        get_route_outcome = \<lambda>tr s e.
          Inr \<lparr>geojson = ''line'', distance = 1250, duration = 40,
               route_fuel_locations = []\<rparr>\<rparr>
       0 ''A'' ''B'' ''C'' []))))) (1 / 2)))\<bar> \<le> 1 / 20"
      by (elim exE conjE)
    have "\<bar>real_of_int k / 10 - (- 13)\<bar> \<le> 1 / 20"
      using bnd unfolding example_run_result(1) example_run_result(2)[OF lg]
      by (simp add: remaining_cycle_unrounded(1))
    then have "k = - 130" by linarith
    then show ?thesis
      unfolding e by (simp add: remaining_cycle_unrounded(3))
  qed
  have d: "res_remaining_cycle_hours (projr (fst (simulate (projr (TripSimulator_init (JStr ''key'') JNull 0))
       \<lparr>geocode_outcome = \<lambda>tr ad. Inr (0, 0),
        get_route_outcome = \<lambda>tr s e.
          Inr \<lparr>geojson = ''line'', distance = 20, duration = fl (11 / 40),
               route_fuel_locations = []\<rparr>\<rparr>
       0 ''A'' ''B'' ''C'' []))) = 135 / 2"
  proof -
    from seventy_hour_cycle [OF i, THEN conjunct2, THEN conjunct2, rule_format,
            OF example_run_short]
    obtain lg k where lg: "res_daily_logs (projr (fst (simulate (projr (TripSimulator_init (JStr ''key'') JNull 0))
       \<lparr>geocode_outcome = \<lambda>tr ad. Inr (0, 0),
        get_route_outcome = \<lambda>tr s e.
          Inr \<lparr>geojson = ''line'', distance = 20, duration = fl (11 / 40),
               route_fuel_locations = []\<rparr>\<rparr>
       0 ''A'' ''B'' ''C'' []))) = [lg]"
      and e: "res_remaining_cycle_hours (projr (fst (simulate (projr (TripSimulator_init (JStr ''key'') JNull 0))
       \<lparr>geocode_outcome = \<lambda>tr ad. Inr (0, 0),
        get_route_outcome = \<lambda>tr s e.
          Inr \<lparr>geojson = ''line'', distance = 20, duration = fl (11 / 40),
               route_fuel_locations = []\<rparr>\<rparr>
       0 ''A'' ''B'' ''C'' []))) = fl (of_int k / 10)"
      and bnd: "\<bar>of_int k / 10 -
                  (fsub (fsub (fsub (fsub (float_of_int (70 - 0)) (total_driving lg)) 1) 1)
                        (fmul (float_of_int (res_fuel_stops (projr (fst (simulate (projr (TripSimulator_init (JStr ''key'') JNull 0))
       \<lparr>geocode_outcome = \<lambda>tr ad. Inr (0, 0),
        get_route_outcome = \<lambda>tr s e.
          Inr \<lparr>geojson = ''line'', distance = 20, duration = fl (11 / 40),
               route_fuel_locations = []\<rparr>\<rparr>
       0 ''A'' ''B'' ''C'' []))))) (1 / 2)))\<bar> \<le> 1 / 20"
      by (elim exE conjE)
    have "\<bar>real_of_int k / 10 - 4746371794783437 / 70368744177664\<bar> \<le> 1 / 20"
      using bnd unfolding example_run_result(3) example_run_result(4)[OF lg]
      by (simp add: remaining_cycle_unrounded(2))
    then have "k = 675" by linarith
    then show ?thesis
      unfolding e by (simp add: remaining_cycle_unrounded(4))
  qed
  from a b c d show ?thesis by (intro conjI)
qed

subsection \<open>The request handler\<close>

text \<open>
  C9, as stated, fails for a value that is not an integer but that \<open>int()\<close> converts: the
  float 65.5 is read as 65, which leaves 5 cycle hours and the simulation is refused with
  status 400, where the same request with 0 succeeds with status 200.
\<close>

theorem float_cycle_used_not_zero:
  "parse_current_cycle_used
     ([''current_location'' \<mapsto> JStr ''A'', ''pickup_location'' \<mapsto> JStr ''B'',
        ''dropoff_location'' \<mapsto> JStr ''C'', ''current_cycle_used'' \<mapsto> JFloat (Finite (131 / 2))]) = Inr 65 \<and>
   fst (simulate_trip
       \<lparr>geocode_outcome = \<lambda>tr ad. Inr (0, 0),
        get_route_outcome = \<lambda>tr s e.
          Inr \<lparr>geojson = ''line'', distance = 1250, duration = 40,
               route_fuel_locations = []\<rparr>\<rparr>
       (JStr ''env'') 0
       [''current_location'' \<mapsto> JStr ''A'', ''pickup_location'' \<mapsto> JStr ''B'',
        ''dropoff_location'' \<mapsto> JStr ''C'', ''current_cycle_used'' \<mapsto> JFloat (Finite (131 / 2))]
       []) =
     \<lparr>status_code = 400,
      body = ErrorBody ''Insufficient cycle hours remaining (minimum 10 required)''
               ''validation_error''\<rparr> \<and>
   status_code (fst (simulate_trip
       \<lparr>geocode_outcome = \<lambda>tr ad. Inr (0, 0),
        get_route_outcome = \<lambda>tr s e.
          Inr \<lparr>geojson = ''line'', distance = 1250, duration = 40,
               route_fuel_locations = []\<rparr>\<rparr>
       (JStr ''env'') 0
       [''current_location'' \<mapsto> JStr ''A'', ''pickup_location'' \<mapsto> JStr ''B'',
        ''dropoff_location'' \<mapsto> JStr ''C'', ''current_cycle_used'' \<mapsto> JInt 0]
       [])) = 200"
proof (intro conjI)
  show "parse_current_cycle_used
     ([''current_location'' \<mapsto> JStr ''A'', ''pickup_location'' \<mapsto> JStr ''B'',
        ''dropoff_location'' \<mapsto> JStr ''C'', ''current_cycle_used'' \<mapsto> JFloat (Finite (131 / 2))]) = Inr 65"
    by (simp add: parse_current_cycle_used_def)
  show "fst (simulate_trip
       \<lparr>geocode_outcome = \<lambda>tr ad. Inr (0, 0),
        get_route_outcome = \<lambda>tr s e.
          Inr \<lparr>geojson = ''line'', distance = 1250, duration = 40,
               route_fuel_locations = []\<rparr>\<rparr>
       (JStr ''env'') 0
       [''current_location'' \<mapsto> JStr ''A'', ''pickup_location'' \<mapsto> JStr ''B'',
        ''dropoff_location'' \<mapsto> JStr ''C'', ''current_cycle_used'' \<mapsto> JFloat (Finite (131 / 2))]
       []) =
     \<lparr>status_code = 400,
      body = ErrorBody ''Insufficient cycle hours remaining (minimum 10 required)''
               ''validation_error''\<rparr>"
    by (simp add: simulate_trip_def required_fields_def simulate_trip_run_def
          parse_current_cycle_used_def data_get_def data_item_def TripSimulator_init_def
          simulate_def)
  show "status_code (fst (simulate_trip
       \<lparr>geocode_outcome = \<lambda>tr ad. Inr (0, 0),
        get_route_outcome = \<lambda>tr s e.
          Inr \<lparr>geojson = ''line'', distance = 1250, duration = 40,
               route_fuel_locations = []\<rparr>\<rparr>
       (JStr ''env'') 0
       [''current_location'' \<mapsto> JStr ''A'', ''pickup_location'' \<mapsto> JStr ''B'',
        ''dropoff_location'' \<mapsto> JStr ''C'', ''current_cycle_used'' \<mapsto> JInt 0]
       [])) = 200"
    by (simp add: simulate_trip_def required_fields_def simulate_trip_run_def
          parse_current_cycle_used_def data_get_def data_item_def TripSimulator_init_def
          simulate_def simulate_try_success)
qed

text \<open>
  C9, amended. \<open>current_cycle_used\<close> is optional and defaults to 0. A supplied value goes
  through \<open>int()\<close>. A value for which \<open>int()\<close> raises \<open>ValueError\<close> or \<open>TypeError\<close> (null, a
  list, an object, a string that is not an integer literal, the float NaN) is silently
  treated as 0; an integer is taken as it is, a string holding an integer literal is
  parsed, a boolean counts as 1 or 0, and a finite float is truncated toward zero.
  Whenever an integer \<open>n\<close> is obtained, the simulation proceeds as if \<open>n\<close> had been sent.
  An infinite float is not treated as 0: \<open>int()\<close> raises \<open>OverflowError\<close>, which the view
  does not catch there, and a request that has its required fields is answered with
  status 500, before any network call.
\<close>

theorem current_cycle_used_conversion:
  "parse_current_cycle_used (data(''current_cycle_used'' := None)) = Inr 0 \<and>
   parse_current_cycle_used (data(''current_cycle_used'' \<mapsto> JInt k)) = Inr k \<and>
   parse_current_cycle_used (data(''current_cycle_used'' \<mapsto> JNull)) = Inr 0 \<and>
   parse_current_cycle_used (data(''current_cycle_used'' \<mapsto> JList xs)) = Inr 0 \<and>
   parse_current_cycle_used (data(''current_cycle_used'' \<mapsto> JDict kvs)) = Inr 0 \<and>
   parse_current_cycle_used (data(''current_cycle_used'' \<mapsto> JStr s)) =
     Inr (case py_int_str s of Some m \<Rightarrow> m | None \<Rightarrow> 0) \<and>
   parse_current_cycle_used (data(''current_cycle_used'' \<mapsto> JBool b)) =
     Inr (if b then 1 else 0) \<and>
   parse_current_cycle_used (data(''current_cycle_used'' \<mapsto> JFloat (Finite x))) =
     Inr (if 0 \<le> x then \<lfloor>x\<rfloor> else \<lceil>x\<rceil>) \<and>
   parse_current_cycle_used (data(''current_cycle_used'' \<mapsto> JFloat NaN)) = Inr 0 \<and>
   parse_current_cycle_used (data(''current_cycle_used'' \<mapsto> JFloat PosInf)) =
     Inl (OverflowError ''cannot convert float infinity to integer'') \<and>
   parse_current_cycle_used (data(''current_cycle_used'' \<mapsto> JFloat NegInf)) =
     Inl (OverflowError ''cannot convert float infinity to integer'') \<and>
   (parse_current_cycle_used data = Inr n \<longrightarrow>
      simulate_trip net env_token clock data trace =
      simulate_trip net env_token clock (data(''current_cycle_used'' \<mapsto> JInt n)) trace) \<and>
   (missing_field required_fields data = None \<longrightarrow>
      simulate_trip net env_token clock (data(''current_cycle_used'' \<mapsto> JFloat PosInf)) trace =
        (\<lparr>status_code = 500,
           body = InternalErrorBody ''Internal server error''
                    ''cannot convert float infinity to integer''\<rparr>, trace) \<and>
      simulate_trip net env_token clock (data(''current_cycle_used'' \<mapsto> JFloat NegInf)) trace =
        (\<lparr>status_code = 500,
           body = InternalErrorBody ''Internal server error''
                    ''cannot convert float infinity to integer''\<rparr>, trace))"
proof (intro conjI impI)
  assume a: "parse_current_cycle_used data = Inr n"
  show "simulate_trip net env_token clock data trace =
      simulate_trip net env_token clock (data(''current_cycle_used'' \<mapsto> JInt n)) trace"
    unfolding simulate_trip_def missing_field_required_upd simulate_trip_run_upd[OF a] ..
next
  assume m: "missing_field required_fields data = None"
  show "simulate_trip net env_token clock (data(''current_cycle_used'' \<mapsto> JFloat PosInf)) trace =
        (\<lparr>status_code = 500,
           body = InternalErrorBody ''Internal server error''
                    ''cannot convert float infinity to integer''\<rparr>, trace)"
    unfolding simulate_trip_def missing_field_required_upd m
    by (simp add: simulate_trip_run_def parse_current_cycle_used_def)
  show "simulate_trip net env_token clock (data(''current_cycle_used'' \<mapsto> JFloat NegInf)) trace =
        (\<lparr>status_code = 500,
           body = InternalErrorBody ''Internal server error''
                    ''cannot convert float infinity to integer''\<rparr>, trace)"
    unfolding simulate_trip_def missing_field_required_upd m
    by (simp add: simulate_trip_run_def parse_current_cycle_used_def)
qed (simp_all add: parse_current_cycle_used_def split: option.splits)

theorem current_cycle_used_conversion_witness:
  "parse_current_cycle_used
     ([''current_location'' \<mapsto> JStr ''A'', ''pickup_location'' \<mapsto> JStr ''B'',
        ''dropoff_location'' \<mapsto> JStr ''C'', ''current_cycle_used'' \<mapsto> JStr ''abc'']) = Inr 0 \<and>
   simulate_trip
       \<lparr>geocode_outcome = \<lambda>tr ad. Inr (0, 0),
        get_route_outcome = \<lambda>tr s e.
          Inr \<lparr>geojson = ''line'', distance = 1250, duration = 40,
               route_fuel_locations = []\<rparr>\<rparr>
       (JStr ''env'') 0
       ([''current_location'' \<mapsto> JStr ''A'', ''pickup_location'' \<mapsto> JStr ''B'',
        ''dropoff_location'' \<mapsto> JStr ''C'', ''current_cycle_used'' \<mapsto> JStr ''abc''])
       [] =
   simulate_trip
       \<lparr>geocode_outcome = \<lambda>tr ad. Inr (0, 0),
        get_route_outcome = \<lambda>tr s e.
          Inr \<lparr>geojson = ''line'', distance = 1250, duration = 40,
               route_fuel_locations = []\<rparr>\<rparr>
       (JStr ''env'') 0
       (([''current_location'' \<mapsto> JStr ''A'', ''pickup_location'' \<mapsto> JStr ''B'',
        ''dropoff_location'' \<mapsto> JStr ''C'', ''current_cycle_used'' \<mapsto> JStr ''abc''])
          (''current_cycle_used'' \<mapsto> JInt 0))
       [] \<and>
   simulate_trip
       \<lparr>geocode_outcome = \<lambda>tr ad. Inr (0, 0),
        get_route_outcome = \<lambda>tr s e.
          Inr \<lparr>geojson = ''line'', distance = 1250, duration = 40,
               route_fuel_locations = []\<rparr>\<rparr>
       (JStr ''env'') 0
       (([''current_location'' \<mapsto> JStr ''A'', ''pickup_location'' \<mapsto> JStr ''B'',
        ''dropoff_location'' \<mapsto> JStr ''C'', ''current_cycle_used'' \<mapsto> JStr ''abc''])
          (''current_cycle_used'' \<mapsto> JFloat PosInf))
       [] =
     (\<lparr>status_code = 500,
        body = InternalErrorBody ''Internal server error''
                 ''cannot convert float infinity to integer''\<rparr>, [])"
proof -
  have p: "parse_current_cycle_used
     ([''current_location'' \<mapsto> JStr ''A'', ''pickup_location'' \<mapsto> JStr ''B'',
        ''dropoff_location'' \<mapsto> JStr ''C'', ''current_cycle_used'' \<mapsto> JStr ''abc'']) = Inr 0"
    by (simp add: parse_current_cycle_used_def py_int_str_examples)
  have m: "missing_field required_fields
     ([''current_location'' \<mapsto> JStr ''A'', ''pickup_location'' \<mapsto> JStr ''B'',
        ''dropoff_location'' \<mapsto> JStr ''C'', ''current_cycle_used'' \<mapsto> JStr ''abc'']) = None"
    by (simp add: required_fields_def)
  note T = current_cycle_used_conversion [THEN conjunct2, THEN conjunct2, THEN conjunct2,
      THEN conjunct2, THEN conjunct2, THEN conjunct2, THEN conjunct2, THEN conjunct2,
      THEN conjunct2, THEN conjunct2, THEN conjunct2]
  note T1 = T [THEN conjunct1, rule_format, OF p]
  note T2 = T [THEN conjunct2, rule_format, OF m, THEN conjunct1]
  show ?thesis
    by (intro conjI, rule p, rule T1, rule T2)
qed

end
